theory Spec2Isabelle
  imports Main "HOL-Library.Word"
begin

unbundle bit_operations_syntax

chapter \<open>ReconX scan orchestration: a shallow embedding\<close>

text \<open>
  The development follows the Python sources of the orchestration core:
  \<^verbatim>\<open>core/subprocess_manager.py\<close>, \<^verbatim>\<open>core/tool_manager.py\<close>,
  \<^verbatim>\<open>api/database.py\<close>, \<^verbatim>\<open>core/state_checkpoint.py\<close>,
  \<^verbatim>\<open>core/scanner_engine.py\<close>, \<^verbatim>\<open>api/tasks.py\<close> and
  \<^verbatim>\<open>api/resilience_manager.py\<close>.
  Objects are records, mutation is state passing, a raised exception is the left
  injection of a sum, and a coroutine that never returns yields \<open>None\<close>. What other
  coroutines do while one is suspended in an \<^verbatim>\<open>await\<close> is given by an explicit
  schedule of their calls.
\<close>

section \<open>Exceptions and observable events\<close>

text \<open>
  \<^verbatim>\<open>except Exception\<close> catches the subclasses of \<^verbatim>\<open>Exception\<close> only;
  \<^verbatim>\<open>asyncio.CancelledError\<close> and \<^verbatim>\<open>KeyboardInterrupt\<close> derive from
  \<^verbatim>\<open>BaseException\<close> and pass through such a handler.
\<close>

datatype exn = Exception string | BaseException string

fun caught_by_except_Exception :: "exn \<Rightarrow> bool" where
  "caught_by_except_Exception (Exception _) = True"
| "caught_by_except_Exception (BaseException _) = False"

text \<open>
  What a process supervisor or an engine does to the outside world: a call of
  \<^verbatim>\<open>proc.terminate()\<close> or of \<^verbatim>\<open>proc.kill()\<close> that did not raise, an
  \<^verbatim>\<open>asyncio.sleep\<close> of so many milliseconds, the start of a scanning module, and
  the launch of a command line.
\<close>

datatype event = Terminate | Kill | SleepMs nat | RunModule string | Launch string

section \<open>Process supervisor (core/subprocess\_manager.py)\<close>

text \<open>
  A Python \<^verbatim>\<open>str\<close> that holds output of a child is a list of code points: the
  lines are what \<^verbatim>\<open>line.decode('utf-8', errors='replace')\<close> gives. Command lines
  are plain strings.
\<close>

type_synonym ustr = "nat list"

definition ustr :: "string \<Rightarrow> ustr" where
  "ustr s = map of_char s"

text \<open>
  \<^verbatim>\<open>duration\<close> is in milliseconds, counted from the moment the child has been
  spawned.
\<close>

record ProcessResult =
  returncode :: int
  stdout :: ustr
  stderr :: ustr
  duration :: nat
  command :: string

text \<open>
  \<^verbatim>\<open>active_processes\<close> is keyed by task id; the process objects themselves are
  opaque, so the dictionary is the list of its keys.
\<close>

record SubprocessManager =
  active_processes :: "string list"
  sp_paused :: bool
  sp_stopped :: bool

definition SubprocessManager_init :: SubprocessManager where
  "SubprocessManager_init = \<lparr>active_processes = [], sp_paused = False, sp_stopped = False\<rparr>"

definition pause_all :: "SubprocessManager \<Rightarrow> SubprocessManager" where
  "pause_all m = m\<lparr>sp_paused := True\<rparr>"

definition resume_all :: "SubprocessManager \<Rightarrow> SubprocessManager" where
  "resume_all m = m\<lparr>sp_paused := False\<rparr>"

text \<open>
  \<^verbatim>\<open>stop_all\<close> sets the flag and calls \<^verbatim>\<open>proc.terminate()\<close> on every tracked
  process, one call per key; a call that raises is logged and the loop goes on.
\<close>

definition stop_all :: "SubprocessManager \<Rightarrow> SubprocessManager \<times> event list" where
  "stop_all m = (m\<lparr>sp_stopped := True\<rparr>, map (\<lambda>_. Terminate) (active_processes m))"

text \<open>
  Time is counted in milliseconds from the moment the child has been spawned. Other
  coroutines call the manager at given instants; a call made at instant \<open>a\<close> is seen
  by every check of a flag at an instant \<open>t\<close> with \<open>a \<le> t\<close>.
\<close>

datatype sp_call = PauseAll | ResumeAll | StopAll

fun sp_apply :: "sp_call \<Rightarrow> SubprocessManager \<Rightarrow> SubprocessManager" where
  "sp_apply PauseAll m = pause_all m"
| "sp_apply ResumeAll m = resume_all m"
| "sp_apply StopAll m = fst (stop_all m)"

definition calls_until :: "(nat \<times> sp_call) list \<Rightarrow> nat \<Rightarrow> sp_call list" where
  "calls_until sched t = map snd (filter (\<lambda>p. fst p \<le> t) sched)"

definition mgr_at :: "SubprocessManager \<Rightarrow> (nat \<times> sp_call) list \<Rightarrow> nat \<Rightarrow> SubprocessManager" where
  "mgr_at m sched t = fold sp_apply (calls_until sched t) m"

text \<open>
  \<^verbatim>\<open>str.rstrip()\<close> strips the code points for which \<^verbatim>\<open>str.isspace\<close> holds.
\<close>

definition is_space :: "nat \<Rightarrow> bool" where
  "is_space n = ((9 \<le> n \<and> n \<le> 13) \<or> (28 \<le> n \<and> n \<le> 32) \<or> n = 133 \<or> n = 160 \<or> n = 5760
     \<or> (8192 \<le> n \<and> n \<le> 8202) \<or> n = 8232 \<or> n = 8233 \<or> n = 8239 \<or> n = 8287 \<or> n = 12288)"

definition rstrip :: "ustr \<Rightarrow> ustr" where
  "rstrip s = rev (dropWhile is_space (rev s))"

text \<open>
  The child as the supervisor observes it in this run, its reaction to signals
  included. What a call of \<^verbatim>\<open>stream.readline()\<close> yields is a chunk: the decoded
  bytes of a line, terminator included, or the \<^verbatim>\<open>ValueError\<close> that
  \<^verbatim>\<open>readline\<close> raises for a line beyond the stream limit of 64 KiB. Each chunk
  carries the instant from which it can be read. A pipe delivers its chunks in
  order and then reaches end of file; the process exits at \<open>exits_at\<close>, if ever, with
  \<open>exit_status\<close> (the negated signal number when a signal ended it).
\<close>

datatype chunk = Line ustr | Overrun

record child =
  spawn_error :: "exn option"
  out_chunks :: "(nat \<times> chunk) list"
  out_eof :: nat
  err_chunks :: "(nat \<times> chunk) list"
  err_eof :: nat
  exits_at :: "nat option"
  exit_status :: int

text \<open>The instant at which a pipe has delivered everything and reached end of file.\<close>

definition pipe_end :: "(nat \<times> chunk) list \<Rightarrow> nat \<Rightarrow> nat" where
  "pipe_end chunks eof = fold (\<lambda>p. max (fst p)) chunks eof"

text \<open>
  Once the exit has been seen and both pipes have reached end of file, asyncio drops
  its handle on the process; from then on \<^verbatim>\<open>proc.terminate()\<close> and
  \<^verbatim>\<open>proc.kill()\<close> raise \<^verbatim>\<open>ProcessLookupError\<close>.
\<close>

definition gone :: "child \<Rightarrow> nat \<Rightarrow> bool" where
  "gone c t =
     (case exits_at c of
        None \<Rightarrow> False
      | Some x \<Rightarrow> x < t \<and> pipe_end (out_chunks c) (out_eof c) < t
                  \<and> pipe_end (err_chunks c) (err_eof c) < t)"

text \<open>
  What a reader runs against: the instant at which \<^verbatim>\<open>asyncio.wait_for\<close> cancels it,
  the two flags of the manager and the state of the process at each instant.
  Whatever would happen at the deadline or later does not happen.
\<close>

record watch =
  deadline :: nat
  paused_at :: "nat \<Rightarrow> bool"
  stopped_at :: "nat \<Rightarrow> bool"
  gone_at :: "nat \<Rightarrow> bool"

text \<open>
  The inner loop of \<^verbatim>\<open>read_stream\<close>, entered at instant \<open>t\<close>:
  \<^verbatim>\<open>while self._paused and not self._stopped: await asyncio.sleep(0.1)\<close>.
  It yields the instant at which the loop is left, or \<open>None\<close> when the reader is
  cancelled in one of the sleeps.
\<close>

function wait_while_paused :: "watch \<Rightarrow> nat \<Rightarrow> nat option" where
  "wait_while_paused w t =
     (if deadline w \<le> t then None
      else if paused_at w t \<and> \<not> stopped_at w t then wait_while_paused w (t + 100)
      else Some t)"
  by pat_completeness auto
termination
  by (relation "measure (\<lambda>(w, t). deadline w - t)") auto

declare wait_while_paused.simps [simp del]

text \<open>
  \<^verbatim>\<open>read_stream(stream, callback, lines_list)\<close>, entered at instant \<open>t\<close>. A reader
  ends at end of file, by the \<^verbatim>\<open>break\<close> after \<^verbatim>\<open>proc.terminate()\<close>, by an
  exception (of \<^verbatim>\<open>readline\<close>, of the callback or of \<^verbatim>\<open>proc.terminate()\<close>), or it is
  cancelled at the deadline. A callback is a function that may raise.
\<close>

datatype reader_end = ReachedEOF | BrokeOnStop | Raised exn | Cancelled

record reader =
  r_lines :: "ustr list"
  r_signals :: "(nat \<times> event) list"
  r_end :: reader_end
  r_time :: nat

definition call_back :: "(ustr \<Rightarrow> exn option) option \<Rightarrow> ustr \<Rightarrow> exn option" where
  "call_back callback decoded = (case callback of None \<Rightarrow> None | Some f \<Rightarrow> f decoded)"

fun read_stream :: "watch \<Rightarrow> (ustr \<Rightarrow> exn option) option \<Rightarrow> (nat \<times> chunk) list \<Rightarrow> nat \<Rightarrow> nat
    \<Rightarrow> ustr list \<Rightarrow> reader" where
  "read_stream w callback [] eof t lines_list =
     (if deadline w \<le> max t eof
      then \<lparr>r_lines = lines_list, r_signals = [], r_end = Cancelled, r_time = deadline w\<rparr>
      else \<lparr>r_lines = lines_list, r_signals = [], r_end = ReachedEOF, r_time = max t eof\<rparr>)"
| "read_stream w callback (p # rest) eof t lines_list =
     (if deadline w \<le> max t (fst p)
      then \<lparr>r_lines = lines_list, r_signals = [], r_end = Cancelled, r_time = deadline w\<rparr>
      else (case snd p of
        Overrun \<Rightarrow> \<lparr>r_lines = lines_list, r_signals = [], r_end = Raised (Exception ''ValueError''),
                     r_time = max t (fst p)\<rparr>
      | Line line \<Rightarrow>
          (if line = []
           then \<lparr>r_lines = lines_list, r_signals = [], r_end = ReachedEOF, r_time = max t (fst p)\<rparr>
           else (case call_back callback (rstrip line) of
             Some e \<Rightarrow> \<lparr>r_lines = lines_list @ [rstrip line], r_signals = [], r_end = Raised e,
                         r_time = max t (fst p)\<rparr>
           | None \<Rightarrow>
               (if stopped_at w (max t (fst p))
                then (if gone_at w (max t (fst p))
                      then \<lparr>r_lines = lines_list @ [rstrip line], r_signals = [],
                            r_end = Raised (Exception ''ProcessLookupError''), r_time = max t (fst p)\<rparr>
                      else \<lparr>r_lines = lines_list @ [rstrip line],
                            r_signals = [(max t (fst p), Terminate)],
                            r_end = BrokeOnStop, r_time = max t (fst p)\<rparr>)
                else (case wait_while_paused w (max t (fst p)) of
                  None \<Rightarrow> \<lparr>r_lines = lines_list @ [rstrip line], r_signals = [], r_end = Cancelled,
                            r_time = deadline w\<rparr>
                | Some t' \<Rightarrow> read_stream w callback rest eof t' (lines_list @ [rstrip line])))))))"

definition join_lines :: "ustr list \<Rightarrow> ustr" where
  "join_lines ls = (case ls of [] \<Rightarrow> [] | l # rest \<Rightarrow> l @ concat (map (\<lambda>x. 10 # x) rest))"

text \<open>
  \<^verbatim>\<open>if task_id: self.active_processes[task_id] = proc\<close> and, in the \<^verbatim>\<open>finally\<close>
  clause, \<^verbatim>\<open>if task_id and task_id in self.active_processes: del ...\<close>. An empty
  string is false in Python.
\<close>

definition tracked :: "string option \<Rightarrow> bool" where
  "tracked task_id = (case task_id of None \<Rightarrow> False | Some t \<Rightarrow> t \<noteq> [])"

definition register :: "string option \<Rightarrow> SubprocessManager \<Rightarrow> SubprocessManager" where
  "register task_id m =
     (case task_id of None \<Rightarrow> m
      | Some t \<Rightarrow> if t = [] \<or> t \<in> set (active_processes m) then m
                  else m\<lparr>active_processes := active_processes m @ [t]\<rparr>)"

definition unregister :: "string option \<Rightarrow> SubprocessManager \<Rightarrow> SubprocessManager" where
  "unregister task_id m =
     (case task_id of None \<Rightarrow> m
      | Some t \<Rightarrow> if t = [] then m
                  else m\<lparr>active_processes := removeAll t (active_processes m)\<rparr>)"

text \<open>
  \<^verbatim>\<open>shlex.split(command)\<close> raises \<^verbatim>\<open>ValueError\<close> when the command ends inside a
  quotation or right after a backslash. It yields no word at all when the command
  holds nothing but blanks; \<^verbatim>\<open>create_subprocess_exec\<close> then raises \<^verbatim>\<open>TypeError\<close>
  for the missing program.
\<close>

datatype lex_state = Plain | InSingle | InDouble | EscPlain | EscDouble

fun shlex_step :: "char \<Rightarrow> lex_state \<Rightarrow> lex_state" where
  "shlex_step c Plain =
     (if c = CHR 0x5C then EscPlain else if c = CHR 0x27 then InSingle
      else if c = CHR 0x22 then InDouble else Plain)"
| "shlex_step c InSingle = (if c = CHR 0x27 then Plain else InSingle)"
| "shlex_step c InDouble =
     (if c = CHR 0x22 then Plain else if c = CHR 0x5C then EscDouble else InDouble)"
| "shlex_step c EscPlain = Plain"
| "shlex_step c EscDouble = InDouble"

definition shlex_split_error :: "string \<Rightarrow> exn option" where
  "shlex_split_error cmd =
     (if fold shlex_step cmd Plain = Plain then None else Some (Exception ''ValueError''))"

definition no_argv :: "string \<Rightarrow> bool" where
  "no_argv cmd = list_all (\<lambda>c. c = CHR 0x20 \<or> c = CHR 0x09 \<or> c = CHR 0x0D \<or> c = CHR 0x0A) cmd"

text \<open>
  The two readers under \<^verbatim>\<open>asyncio.gather\<close> and \<^verbatim>\<open>asyncio.wait_for(..., timeout)\<close>.
  The wait is over \<open>1000 * timeout\<close> milliseconds after it began, at once when
  \<^verbatim>\<open>timeout\<close> is not positive. Both readers see the flags of the one manager.
\<close>

definition watching :: "SubprocessManager \<Rightarrow> (nat \<times> sp_call) list \<Rightarrow> child \<Rightarrow> int \<Rightarrow> watch" where
  "watching m sched c timeout =
     \<lparr>deadline = 1000 * nat timeout,
      paused_at = (\<lambda>t. sp_paused (mgr_at m sched t)),
      stopped_at = (\<lambda>t. sp_stopped (mgr_at m sched t)),
      gone_at = gone c\<rparr>"

text \<open>
  The wait ends with the first exception of a reader (the one on standard output
  when both raise at the same instant), else with \<^verbatim>\<open>TimeoutError\<close> when a reader
  has been cancelled, else when both readers are done.
\<close>

datatype gather_end = Finished nat | Failed nat exn | TimedOut

definition raised :: "reader \<Rightarrow> (nat \<times> exn) option" where
  "raised r = (case r_end r of Raised e \<Rightarrow> Some (r_time r, e) | _ \<Rightarrow> None)"

definition gather_readers :: "reader \<Rightarrow> reader \<Rightarrow> gather_end" where
  "gather_readers r1 r2 =
     (case raised r1 of
        Some (t1, e1) \<Rightarrow>
          (case raised r2 of
             Some (t2, e2) \<Rightarrow> if t1 \<le> t2 then Failed t1 e1 else Failed t2 e2
           | None \<Rightarrow> Failed t1 e1)
      | None \<Rightarrow>
          (case raised r2 of
             Some (t2, e2) \<Rightarrow> Failed t2 e2
           | None \<Rightarrow> if r_end r1 = Cancelled \<or> r_end r2 = Cancelled then TimedOut
                      else Finished (max (r_time r1) (r_time r2))))"

text \<open>
  The signals that reach this run's child up to instant \<open>t\<close>, in the order of their
  instants: those of the two readers, and one \<^verbatim>\<open>proc.terminate()\<close> for each
  \<^verbatim>\<open>stop_all\<close> that finds the child tracked and not yet gone.
\<close>

definition stop_signals :: "string option \<Rightarrow> child \<Rightarrow> (nat \<times> sp_call) list \<Rightarrow> (nat \<times> event) list" where
  "stop_signals task_id c sched =
     (if tracked task_id
      then map (\<lambda>p. (fst p, Terminate)) (filter (\<lambda>p. snd p = StopAll \<and> \<not> gone c (fst p)) sched)
      else [])"

definition signals_until :: "nat \<Rightarrow> (nat \<times> event) list \<Rightarrow> (nat \<times> event) list" where
  "signals_until t sigs = sort_key fst (filter (\<lambda>p. fst p \<le> t) sigs)"

text \<open>
  \<^verbatim>\<open>SubprocessManager.run\<close>. The result is \<open>None\<close> when the call never returns.
  An exception of \<^verbatim>\<open>shlex.split\<close> is raised before the \<^verbatim>\<open>try\<close>. Inside it every
  exception is logged and raised again, and the \<^verbatim>\<open>finally\<close> clause removes the
  task id. On \<^verbatim>\<open>TimeoutError\<close> the source calls \<^verbatim>\<open>proc.kill()\<close> and sets the
  return code to \<open>-1\<close>; otherwise it awaits \<^verbatim>\<open>proc.wait()\<close>, with no time limit, and
  the return code is the child's exit status. The log is stamped with the instants.
\<close>

definition leave :: "SubprocessManager \<Rightarrow> (nat \<times> sp_call) list \<Rightarrow> string option \<Rightarrow> nat \<Rightarrow> SubprocessManager" where
  "leave m sched task_id t = unregister task_id (mgr_at (register task_id m) sched t)"

definition process_result :: "int \<Rightarrow> reader \<Rightarrow> reader \<Rightarrow> nat \<Rightarrow> string \<Rightarrow> ProcessResult" where
  "process_result code r1 r2 t cmd =
     \<lparr>returncode = code, stdout = join_lines (r_lines r1), stderr = join_lines (r_lines r2),
      duration = t, command = cmd\<rparr>"

definition supervise :: "SubprocessManager \<Rightarrow> string \<Rightarrow> nat \<Rightarrow> string option \<Rightarrow> child
    \<Rightarrow> (nat \<times> sp_call) list \<Rightarrow> reader \<Rightarrow> reader
    \<Rightarrow> ((exn + ProcessResult) \<times> SubprocessManager \<times> (nat \<times> event) list) option" where
  "supervise m cmd dl task_id c sched r1 r2 =
     (case gather_readers r1 r2 of
        Failed t e \<Rightarrow>
          Some (Inl e, leave m sched task_id t,
                (0, Launch cmd) # signals_until t (r_signals r1 @ r_signals r2 @ stop_signals task_id c sched))
      | TimedOut \<Rightarrow>
          if gone c dl
          then Some (Inl (Exception ''ProcessLookupError''), leave m sched task_id dl,
                     (0, Launch cmd) # signals_until dl (r_signals r1 @ r_signals r2 @ stop_signals task_id c sched))
          else Some (Inr (process_result (- 1) r1 r2 dl cmd), leave m sched task_id dl,
                     (0, Launch cmd) # signals_until dl (r_signals r1 @ r_signals r2 @ stop_signals task_id c sched)
                       @ [(dl, Kill)])
      | Finished t \<Rightarrow>
          (case exits_at c of
             None \<Rightarrow> None
           | Some x \<Rightarrow>
               Some (Inr (process_result (exit_status c) r1 r2 (max t x) cmd), leave m sched task_id (max t x),
                     (0, Launch cmd) # signals_until (max t x)
                        (r_signals r1 @ r_signals r2 @ stop_signals task_id c sched))))"

definition run :: "SubprocessManager \<Rightarrow> string \<Rightarrow> int \<Rightarrow> (ustr \<Rightarrow> exn option) option
    \<Rightarrow> (ustr \<Rightarrow> exn option) option \<Rightarrow> string option \<Rightarrow> child \<Rightarrow> (nat \<times> sp_call) list
    \<Rightarrow> ((exn + ProcessResult) \<times> SubprocessManager \<times> (nat \<times> event) list) option" where
  "run m cmd timeout stdout_callback stderr_callback task_id c sched =
     (case shlex_split_error cmd of
        Some e \<Rightarrow> Some (Inl e, m, [])
      | None \<Rightarrow>
          (if no_argv cmd then Some (Inl (Exception ''TypeError''), unregister task_id m, [])
           else (case spawn_error c of
             Some e \<Rightarrow> Some (Inl e, unregister task_id m, [])
           | None \<Rightarrow>
               supervise m cmd (1000 * nat timeout) task_id c sched
                 (read_stream (watching (register task_id m) sched c timeout) stdout_callback
                    (out_chunks c) (out_eof c) 0 [])
                 (read_stream (watching (register task_id m) sched c timeout) stderr_callback
                    (err_chunks c) (err_eof c) 0 []))))"




section \<open>Tool registry (core/tool\_manager.py)\<close>

text \<open>One entry of \<^verbatim>\<open>config/tools.json\<close>; a key that is absent is \<open>None\<close>.\<close>

record tool_config =
  binary_path :: "string option"
  install_cmd :: "string option"
  version_check :: "string option"
  category :: "string option"
  description :: "string option"
  enabled :: "bool option"

text \<open>\<^verbatim>\<open>if not tool_config\<close>: a missing entry and an empty dictionary are both false.\<close>

definition tool_config_falsy :: "tool_config option \<Rightarrow> bool" where
  "tool_config_falsy tc =
     (case tc of None \<Rightarrow> True
      | Some c \<Rightarrow> binary_path c = None \<and> install_cmd c = None \<and> version_check c = None
                  \<and> category c = None \<and> description c = None \<and> enabled c = None)"

text \<open>
  \<^verbatim>\<open>installed_tools\<close> is the memo. \<^verbatim>\<open>tm_events\<close> records what the manager's own
  process supervisor did, so that an install run is visible in the state.
\<close>

record ToolManager =
  tools_config :: "string \<rightharpoonup> tool_config"
  tm_subprocess_mgr :: SubprocessManager
  installed_tools :: "string \<rightharpoonup> bool"
  tm_events :: "event list"

text \<open>
  The machine the manager runs on: \<^verbatim>\<open>shutil.which\<close>, \<^verbatim>\<open>Path.expanduser\<close>, the
  outcome of the synchronous version probe, and the behaviour of the child that an
  install command starts.
\<close>

record tool_env =
  which :: "string \<Rightarrow> bool"
  expanduser :: "string \<Rightarrow> string"
  version_probe :: "string \<Rightarrow> exn + string"
  install_child :: "string \<Rightarrow> child"

definition resolve_path :: "tool_env \<Rightarrow> string \<Rightarrow> string" where
  "resolve_path env path = expanduser env path"

definition check_tool :: "tool_env \<Rightarrow> ToolManager \<Rightarrow> string \<Rightarrow> exn + (bool \<times> string option)" where
  "check_tool env tm tool_name =
     (if tool_config_falsy (tools_config tm tool_name) then Inr (False, None)
      else case tools_config tm tool_name of
        None \<Rightarrow> Inr (False, None)
      | Some tc \<Rightarrow>
          if \<not> which env (resolve_path env (case binary_path tc of None \<Rightarrow> tool_name | Some b \<Rightarrow> b))
          then Inr (False, None)
          else (case version_check tc of
                  None \<Rightarrow> Inr (True, Some ''unknown'')
                | Some vc \<Rightarrow>
                    if vc = [] then Inr (True, Some ''unknown'')
                    else (case version_probe env vc of
                            Inr version \<Rightarrow> Inr (True, Some version)
                          | Inl e \<Rightarrow> if caught_by_except_Exception e
                                      then Inr (True, Some ''unknown'') else Inl e)))"

text \<open>
  \<^verbatim>\<open>install_tool\<close> runs the install command on the manager's own supervisor, with
  a budget of 300 seconds and two callbacks that only log. \<open>None\<close>: the run, and
  with it the install, never returns.
\<close>

definition install_tool :: "tool_env \<Rightarrow> ToolManager \<Rightarrow> string \<Rightarrow> ((exn + bool) \<times> ToolManager) option" where
  "install_tool env tm tool_name =
     (if tool_config_falsy (tools_config tm tool_name) then Some (Inr False, tm)
      else case tools_config tm tool_name of
        None \<Rightarrow> Some (Inr False, tm)
      | Some tc \<Rightarrow>
          (case install_cmd tc of
             None \<Rightarrow> Some (Inr False, tm)
           | Some cmd \<Rightarrow>
               if cmd = [] then Some (Inr False, tm)
               else (case run (tm_subprocess_mgr tm) cmd 300 (Some (\<lambda>x. None)) (Some (\<lambda>x. None)) None
                            (install_child env cmd) [] of
                       None \<Rightarrow> None
                     | Some (res, m', ev) \<Rightarrow>
                         (let tm1 = tm\<lparr>tm_subprocess_mgr := m', tm_events := tm_events tm @ map snd ev\<rparr>
                          in case res of
                               Inl e \<Rightarrow> Some (if caught_by_except_Exception e then Inr False else Inl e, tm1)
                             | Inr result \<Rightarrow>
                                 if returncode result = 0
                                 then Some (Inr True, tm1\<lparr>installed_tools := (installed_tools tm1)(tool_name \<mapsto> True)\<rparr>)
                                 else Some (Inr False, tm1)))))"

definition ensure_tool :: "tool_env \<Rightarrow> ToolManager \<Rightarrow> string \<Rightarrow> ((exn + bool) \<times> ToolManager) option" where
  "ensure_tool env tm tool_name =
     (case installed_tools tm tool_name of
        Some memo \<Rightarrow> Some (Inr memo, tm)
      | None \<Rightarrow>
          (case check_tool env tm tool_name of
             Inl e \<Rightarrow> Some (Inl e, tm)
           | Inr (is_installed, version) \<Rightarrow>
               if is_installed
               then Some (Inr True, tm\<lparr>installed_tools := (installed_tools tm)(tool_name \<mapsto> True)\<rparr>)
               else install_tool env tm tool_name))"


section \<open>JSON values and \<^verbatim>\<open>json.dumps\<close>\<close>

text \<open>
  The values \<^verbatim>\<open>json.dumps\<close> accepts without a \<^verbatim>\<open>default\<close> hook and that
  \<^verbatim>\<open>json.loads\<close> gives back unchanged: \<^verbatim>\<open>None\<close>, booleans, integers, strings,
  lists and dictionaries with string keys (floats are left out). A dictionary is the
  list of its items in insertion order; its keys are distinct. Strings are sequences
  of code points below 256.
\<close>

datatype json =
    JNull
  | JBool bool
  | JInt int
  | JStr string
  | JList "json list"
  | JDict "(string \<times> json) list"

text \<open>Python truth value of such a value (\<^verbatim>\<open>if not x\<close>).\<close>

fun truthy :: "json \<Rightarrow> bool" where
  "truthy JNull = False"
| "truthy (JBool b) = b"
| "truthy (JInt i) = (i \<noteq> 0)"
| "truthy (JStr s) = (s \<noteq> [])"
| "truthy (JList xs) = (xs \<noteq> [])"
| "truthy (JDict kvs) = (kvs \<noteq> [])"

text \<open>\<^verbatim>\<open>d.get(k)\<close> and \<^verbatim>\<open>d[k] = v\<close> on an item list.\<close>

definition dict_get :: "(string \<times> 'v) list \<Rightarrow> string \<Rightarrow> 'v option" where
  "dict_get kvs k = map_of kvs k"

fun dict_put :: "string \<Rightarrow> 'v \<Rightarrow> (string \<times> 'v) list \<Rightarrow> (string \<times> 'v) list" where
  "dict_put k v [] = [(k, v)]"
| "dict_put k v ((k', v') # kvs) = (if k' = k then (k, v) # kvs else (k', v') # dict_put k v kvs)"

definition hexdigit :: "nat \<Rightarrow> char" where
  "hexdigit n = ''0123456789abcdef'' ! (n mod 16)"

text \<open>
  \<^verbatim>\<open>py_encode_basestring_ascii\<close>: printable ASCII is copied, the quote and the
  backslash are escaped, the usual control characters have short escapes, anything
  else is written as a four digit \<^verbatim>\<open>\u\<close> escape.
\<close>

definition escape_char :: "char \<Rightarrow> string" where
  "escape_char c =
     (let n = (of_char c :: nat) in
      if n = 0x22 then [CHR 0x5C, CHR 0x22]
      else if n = 0x5C then [CHR 0x5C, CHR 0x5C]
      else if n = 0x0A then [CHR 0x5C, CHR ''n'']
      else if n = 0x0D then [CHR 0x5C, CHR ''r'']
      else if n = 0x09 then [CHR 0x5C, CHR ''t'']
      else if n = 0x08 then [CHR 0x5C, CHR ''b'']
      else if n = 0x0C then [CHR 0x5C, CHR ''f'']
      else if 0x20 \<le> n \<and> n \<le> 0x7E then [c]
      else [CHR 0x5C, CHR ''u'', CHR ''0'', CHR ''0'', hexdigit (n div 16), hexdigit (n mod 16)])"

definition dumps_str :: "string \<Rightarrow> string" where
  "dumps_str s = CHR 0x22 # concat (map escape_char s) @ [CHR 0x22]"

fun digits :: "nat \<Rightarrow> string" where
  "digits n = (if n < 10 then [hexdigit n] else digits (n div 10) @ [hexdigit (n mod 10)])"

declare digits.simps [simp del]

definition dumps_int :: "int \<Rightarrow> string" where
  "dumps_int i = (if i < 0 then CHR ''-'' # digits (nat (- i)) else digits (nat i))"

fun join_with :: "string \<Rightarrow> string list \<Rightarrow> string" where
  "join_with sep [] = []"
| "join_with sep [x] = x"
| "join_with sep (x # y # ys) = x @ sep @ join_with sep (y # ys)"

text \<open>\<^verbatim>\<open>sort_keys=True\<close>: the items ordered by key, keys compared by code point.\<close>

fun str_le :: "string \<Rightarrow> string \<Rightarrow> bool" where
  "str_le [] ys = True"
| "str_le (x # xs) [] = False"
| "str_le (x # xs) (y # ys) =
     ((of_char x :: nat) < of_char y \<or> ((of_char x :: nat) = of_char y \<and> str_le xs ys))"

fun insert_item :: "string \<times> 'v \<Rightarrow> (string \<times> 'v) list \<Rightarrow> (string \<times> 'v) list" where
  "insert_item kv [] = [kv]"
| "insert_item kv (kv' # rest) =
     (if str_le (fst kv) (fst kv') then kv # kv' # rest else kv' # insert_item kv rest)"

definition sort_items :: "(string \<times> 'v) list \<Rightarrow> (string \<times> 'v) list" where
  "sort_items kvs = foldr insert_item kvs []"

text \<open>
  \<^verbatim>\<open>json.dumps(data, sort_keys=True)\<close> with the default separators \<^verbatim>\<open>", "\<close> and
  \<^verbatim>\<open>": "\<close>. On the values above the \<^verbatim>\<open>default=str\<close> hook is never called.
\<close>

fun dumps :: "json \<Rightarrow> string" where
  "dumps JNull = ''null''"
| "dumps (JBool b) = (if b then ''true'' else ''false'')"
| "dumps (JInt i) = dumps_int i"
| "dumps (JStr s) = dumps_str s"
| "dumps (JList xs) = ''['' @ join_with '', '' (map dumps xs) @ '']''"
| "dumps (JDict kvs) =
     ''{'' @ join_with '', '' (map (\<lambda>kv. dumps_str (fst kv) @ '': '' @ snd kv)
              (sort_items (map (\<lambda>(k, v). (k, dumps v)) kvs))) @ ''}''"

section \<open>SHA-256 (\<^verbatim>\<open>hashlib.sha256\<close>)\<close>

text \<open>
  FIPS 180-4 on 32-bit words kept as natural numbers below \<open>2 ^ 32\<close>, with the
  wrap-around of the addition written out. The message schedule is produced on the
  fly: the window holds the sixteen most recent schedule words. The round constants
  and the initial hash value are written in decimal.
\<close>

type_synonym u32 = nat

definition wrap32 :: "nat \<Rightarrow> u32" where
  "wrap32 s = (if s < 4294967296 then s else s - 4294967296)"

definition add32 :: "u32 \<Rightarrow> u32 \<Rightarrow> u32" where
  "add32 x y = wrap32 (x + y)"

definition not32 :: "u32 \<Rightarrow> u32" where
  "not32 x = 4294967295 - x"

definition rotr :: "nat \<Rightarrow> u32 \<Rightarrow> u32" where
  "rotr n x = drop_bit n x + push_bit (32 - n) (take_bit n x)"

definition shr :: "nat \<Rightarrow> u32 \<Rightarrow> u32" where
  "shr n x = drop_bit n x"

definition ch :: "u32 \<Rightarrow> u32 \<Rightarrow> u32 \<Rightarrow> u32" where
  "ch x y z = (x AND y) XOR (not32 x AND z)"

definition maj :: "u32 \<Rightarrow> u32 \<Rightarrow> u32 \<Rightarrow> u32" where
  "maj x y z = (x AND y) XOR (x AND z) XOR (y AND z)"

definition bsig0 :: "u32 \<Rightarrow> u32" where
  "bsig0 x = rotr 2 x XOR rotr 13 x XOR rotr 22 x"

definition bsig1 :: "u32 \<Rightarrow> u32" where
  "bsig1 x = rotr 6 x XOR rotr 11 x XOR rotr 25 x"

definition ssig0 :: "u32 \<Rightarrow> u32" where
  "ssig0 x = rotr 7 x XOR rotr 18 x XOR shr 3 x"

definition ssig1 :: "u32 \<Rightarrow> u32" where
  "ssig1 x = rotr 17 x XOR rotr 19 x XOR shr 10 x"

definition K256 :: "u32 list" where
  "K256 = [1116352408, 1899447441, 3049323471, 3921009573, 961987163, 1508970993,
     2453635748, 2870763221, 3624381080, 310598401, 607225278, 1426881987,
     1925078388, 2162078206, 2614888103, 3248222580, 3835390401, 4022224774,
     264347078, 604807628, 770255983, 1249150122, 1555081692, 1996064986,
     2554220882, 2821834349, 2952996808, 3210313671, 3336571891, 3584528711,
     113926993, 338241895, 666307205, 773529912, 1294757372, 1396182291,
     1695183700, 1986661051, 2177026350, 2456956037, 2730485921, 2820302411,
     3259730800, 3345764771, 3516065817, 3600352804, 4094571909, 275423344,
     430227734, 506948616, 659060556, 883997877, 958139571, 1322822218,
     1537002063, 1747873779, 1955562222, 2024104815, 2227730452, 2361852424,
     2428436474, 2756734187, 3204031479, 3329325298]"

definition be64 :: "nat \<Rightarrow> nat list" where
  "be64 l = map (\<lambda>i. (l div 256 ^ i) mod 256) [7, 6, 5, 4, 3, 2, 1, 0]"

fun zeros :: "nat \<Rightarrow> nat list" where
  "zeros 0 = []"
| "zeros (Suc n) = 0 # zeros n"

definition sha_pad :: "nat list \<Rightarrow> nat list" where
  "sha_pad m = m @ [128] @ zeros ((119 - length m mod 64) mod 64) @ be64 (8 * length m)"

fun words_of :: "nat list \<Rightarrow> u32 list" where
  "words_of (a # b # c # d # r) = (((a * 256 + b) * 256 + c) * 256 + d) # words_of r"
| "words_of _ = []"

type_synonym sha_state = "u32 \<times> u32 \<times> u32 \<times> u32 \<times> u32 \<times> u32 \<times> u32 \<times> u32"

fun shift_state :: "u32 \<Rightarrow> u32 \<Rightarrow> sha_state \<Rightarrow> sha_state" where
  "shift_state t1 t2 (a, b, c, d, e, f, g, h) = (add32 t1 t2, a, b, c, add32 d t1, e, f, g)"

fun round_step :: "u32 \<Rightarrow> u32 \<Rightarrow> sha_state \<Rightarrow> sha_state" where
  "round_step k w (a, b, c, d, e, f, g, h) =
     shift_state (add32 (add32 (add32 (add32 h (bsig1 e)) (ch e f g)) k) w)
       (add32 (bsig0 a) (maj a b c)) (a, b, c, d, e, f, g, h)"

fun next_window :: "u32 list \<Rightarrow> u32 list" where
  "next_window [w0, w1, w2, w3, w4, w5, w6, w7, w8, w9, w10, w11, w12, w13, w14, w15] =
     [w1, w2, w3, w4, w5, w6, w7, w8, w9, w10, w11, w12, w13, w14, w15,
      add32 (add32 (add32 (ssig1 w14) w9) (ssig0 w1)) w0]"
| "next_window ws = ws"

fun rounds :: "u32 list \<Rightarrow> u32 list \<Rightarrow> sha_state \<Rightarrow> sha_state" where
  "rounds (k # ks) ws s = rounds ks (next_window ws) (round_step k (hd ws) s)"
| "rounds [] ws s = s"

fun add_state :: "sha_state \<Rightarrow> sha_state \<Rightarrow> sha_state" where
  "add_state (a, b, c, d, e, f, g, h) (a', b', c', d', e', f', g', h') =
     (add32 a a', add32 b b', add32 c c', add32 d d', add32 e e', add32 f f', add32 g g', add32 h h')"

definition compress :: "sha_state \<Rightarrow> u32 list \<Rightarrow> sha_state" where
  "compress s blk = add_state s (rounds K256 blk s)"

fun sha_blocks :: "sha_state \<Rightarrow> u32 list \<Rightarrow> sha_state" where
  "sha_blocks s (w0 # w1 # w2 # w3 # w4 # w5 # w6 # w7 # w8 # w9 # w10 # w11 # w12 # w13 # w14 # w15 # ws) =
     sha_blocks (compress s [w0, w1, w2, w3, w4, w5, w6, w7, w8, w9, w10, w11, w12, w13, w14, w15]) ws"
| "sha_blocks s _ = s"

definition hex32 :: "u32 \<Rightarrow> string" where
  "hex32 w = map (\<lambda>i. hexdigit ((w div 16 ^ i) mod 16)) [7, 6, 5, 4, 3, 2, 1, 0]"

fun hex_state :: "sha_state \<Rightarrow> string" where
  "hex_state (a, b, c, d, e, f, g, h) = concat (map hex32 [a, b, c, d, e, f, g, h])"

definition sha256_init :: sha_state where
  "sha256_init = (1779033703, 3144134277, 1013904242, 2773480762,
                  1359893119, 2600822924, 528734635, 1541459225)"

text \<open>\<^verbatim>\<open>hashlib.sha256(content.encode()).hexdigest()\<close> for ASCII content.\<close>

definition sha256_hexdigest :: "string \<Rightarrow> string" where
  "sha256_hexdigest m = hex_state (sha_blocks sha256_init (words_of (sha_pad (map of_char m))))"


section \<open>Artifact store (api/database.py)\<close>

text \<open>
  A row of the \<^verbatim>\<open>scans\<close> table. The JSON-shaped \<^verbatim>\<open>TEXT\<close> columns hold the value
  that \<^verbatim>\<open>json.loads\<close> gives back for the stored text; \<open>None\<close> is \<^verbatim>\<open>NULL\<close>.
  Timestamps are seconds on the database clock.
\<close>

record scan_row =
  target_id :: string
  name :: "string option"
  profile :: string
  status :: string
  started_at :: "nat option"
  completed_at :: "nat option"
  progress :: json
  current_task :: "string option"
  config :: json
  error_message :: "string option"
  checkpoint_data :: "json option"
  is_resumed :: bool
  llm_model_used :: "string option"
  created_at :: nat

text \<open>
  A row of the \<^verbatim>\<open>system_state\<close> table: its \<^verbatim>\<open>id\<close>, which the schema lets be
  \<^verbatim>\<open>NULL\<close>, and its \<^verbatim>\<open>network_status\<close>.
\<close>

record system_row =
  ss_id :: "string option"
  ss_network_status :: string

text \<open>
  The store as the program has it: every statement goes through the one connection
  \<^verbatim>\<open>self._connection\<close>. The table \<^verbatim>\<open>scans\<close>, keyed by id, and the table
  \<^verbatim>\<open>system_state\<close>, in the order in which a \<^verbatim>\<open>SELECT\<close> yields its rows, are as that
  connection sees them, the changes of its open transaction included; \<open>committed\<close>
  is what the last successful \<^verbatim>\<open>commit()\<close> made durable. A commit that succeeds
  makes durable everything that is pending on the connection.
\<close>

record durable =
  d_scans :: "string \<rightharpoonup> scan_row"
  d_system_state :: "system_row list"

record database =
  scans :: "string \<rightharpoonup> scan_row"
  system_state :: "system_row list"
  committed :: durable

definition commit :: "database \<Rightarrow> database" where
  "commit d = d\<lparr>committed := \<lparr>d_scans = scans d, d_system_state = system_state d\<rparr>\<rparr>"

text \<open>A store with nothing pending on its connection.\<close>

definition stored :: "(string \<rightharpoonup> scan_row) \<Rightarrow> system_row list \<Rightarrow> database" where
  "stored rows st =
     \<lparr>scans = rows, system_state = st, committed = \<lparr>d_scans = rows, d_system_state = st\<rparr>\<rparr>"

definition get_scan :: "database \<Rightarrow> string \<Rightarrow> scan_row option" where
  "get_scan db scan_id = scans db scan_id"

definition is_scan_started :: "database \<Rightarrow> string \<Rightarrow> bool" where
  "is_scan_started db scan_id =
     (case scans db scan_id of None \<Rightarrow> False | Some row \<Rightarrow> started_at row \<noteq> None)"

definition progress_json :: "(string \<times> int) list \<Rightarrow> json" where
  "progress_json p = JDict (map (\<lambda>(k, v). (k, JInt v)) p)"

text \<open>
  \<^verbatim>\<open>update_scan_status(scan_id, status, current_task=None, progress=None)\<close>. The
  statement built is \<^verbatim>\<open>UPDATE scans SET status = ?, ... WHERE id = ?\<close>; it carries no
  condition on the row's present status, and it is followed by a commit. \<open>now\<close> is
  \<^verbatim>\<open>CURRENT_TIMESTAMP\<close>.
\<close>

definition update_scan_status :: "nat \<Rightarrow> database \<Rightarrow> string \<Rightarrow> string \<Rightarrow> string option
    \<Rightarrow> (string \<times> int) list option \<Rightarrow> database" where
  "update_scan_status now db scan_id new_status task prog =
     commit (case scans db scan_id of
        None \<Rightarrow> db
      | Some row \<Rightarrow>
          (let r1 = row\<lparr>status := new_status\<rparr>;
               r2 = (case task of None \<Rightarrow> r1
                     | Some t \<Rightarrow> if t = [] then r1 else r1\<lparr>current_task := Some t\<rparr>);
               r3 = (case prog of None \<Rightarrow> r2
                     | Some p \<Rightarrow> if p = [] then r2 else r2\<lparr>progress := progress_json p\<rparr>);
               r4 = (if new_status = ''running'' \<and> \<not> is_scan_started db scan_id
                     then r3\<lparr>started_at := Some now\<rparr>
                     else if new_status = ''completed'' \<or> new_status = ''failed''
                     then r3\<lparr>completed_at := Some now\<rparr>
                     else r3)
           in db\<lparr>scans := (scans db)(scan_id \<mapsto> r4)\<rparr>))"

text \<open>
  \<^verbatim>\<open>save_checkpoint\<close>: the statement
  \<^verbatim>\<open>UPDATE scans SET checkpoint_data = ? WHERE id = ?\<close> on the connection, then the
  commit.
\<close>

definition execute_save_checkpoint :: "database \<Rightarrow> string \<Rightarrow> json \<Rightarrow> database" where
  "execute_save_checkpoint db scan_id checkpoint =
     (case scans db scan_id of
        None \<Rightarrow> db
      | Some row \<Rightarrow> db\<lparr>scans := (scans db)(scan_id \<mapsto> row\<lparr>checkpoint_data := Some checkpoint\<rparr>)\<rparr>)"

definition save_checkpoint :: "database \<Rightarrow> string \<Rightarrow> json \<Rightarrow> database" where
  "save_checkpoint db scan_id checkpoint = commit (execute_save_checkpoint db scan_id checkpoint)"

text \<open>
  \<^verbatim>\<open>update_system_state(state_data)\<close>, as far as the id and the network status go;
  \<open>sid\<close> and \<open>ns\<close> are the entries \<^verbatim>\<open>'id'\<close> and \<^verbatim>\<open>'network_status'\<close> of
  \<^verbatim>\<open>state_data\<close>, \<open>None\<close> when the key is missing. With the table empty a row is
  inserted with \<^verbatim>\<open>state_data.get('id')\<close> as its id. Otherwise the statement is
  \<^verbatim>\<open>UPDATE system_state SET ... WHERE id = ?\<close> with the id of the first row; when
  that id is \<^verbatim>\<open>NULL\<close> the comparison is never true and no row is updated.
\<close>

definition set_network_status :: "string \<Rightarrow> string \<Rightarrow> system_row \<Rightarrow> system_row" where
  "set_network_status i v r = (if ss_id r = Some i then r\<lparr>ss_network_status := v\<rparr> else r)"

definition update_system_state :: "database \<Rightarrow> string option \<Rightarrow> string option \<Rightarrow> database" where
  "update_system_state db sid ns =
     commit (case system_state db of
        [] \<Rightarrow> db\<lparr>system_state :=
                 [\<lparr>ss_id = sid, ss_network_status = (case ns of None \<Rightarrow> ''online'' | Some v \<Rightarrow> v)\<rparr>]\<rparr>
      | existing # _ \<Rightarrow>
          (case ss_id existing of
             None \<Rightarrow> db
           | Some i \<Rightarrow>
               db\<lparr>system_state :=
                    map (set_network_status i (case ns of None \<Rightarrow> ''online'' | Some v \<Rightarrow> v))
                      (system_state db)\<rparr>))"

section \<open>Checkpoint store (core/state\_checkpoint.py)\<close>

text \<open>
  The file \<^verbatim>\<open>data/state/<scan_id>.json\<close> of each scan: absent, holding the text of
  a JSON value, or holding bytes that \<^verbatim>\<open>json.load\<close> rejects.
\<close>

datatype file_content = JsonText json | Garbage

record world =
  files :: "string \<rightharpoonup> file_content"
  db :: database

text \<open>
  What can go wrong in \<^verbatim>\<open>save_state\<close>: \<^verbatim>\<open>open(path, 'w')\<close> raises and the file is
  untouched; or the file is opened, which truncates it, and the write raises. In the
  database write the \<^verbatim>\<open>execute()\<close> raises and nothing is changed; or the statement is
  executed and the \<^verbatim>\<open>commit()\<close> raises, which leaves the change pending on the
  connection.
\<close>

datatype file_fault = NoFileFault | OpenFails exn | WriteFails exn

datatype db_fault = NoDbFault | ExecuteFails exn | CommitFails exn


fun db_fault_exn :: "db_fault \<Rightarrow> exn option" where
  "db_fault_exn NoDbFault = None"
| "db_fault_exn (ExecuteFails e) = Some e"
| "db_fault_exn (CommitFails e) = Some e"

record save_faults =
  on_file :: file_fault
  on_db :: db_fault

definition no_faults :: save_faults where
  "no_faults = \<lparr>on_file = NoFileFault, on_db = NoDbFault\<rparr>"

text \<open>
  \<^verbatim>\<open>_serialize_results\<close> keeps every value that is a list, dict, str, int, float,
  bool or \<^verbatim>\<open>None\<close>; all values of type \<open>json\<close> are.
\<close>

definition serialize_results :: "(string \<times> json) list \<Rightarrow> (string \<times> json) list" where
  "serialize_results results = fold (\<lambda>kv serialized. dict_put (fst kv) (snd kv) serialized) results []"

definition generate_checksum :: "json \<Rightarrow> string" where
  "generate_checksum data = take 16 (sha256_hexdigest (dumps data))"

text \<open>
  \<^verbatim>\<open>_verify_checksum(state)\<close>. \<^verbatim>\<open>state.get\<close> raises \<^verbatim>\<open>AttributeError\<close> when the
  stored value is not a dictionary.
\<close>

fun verify_checksum :: "json \<Rightarrow> exn + bool" where
  "verify_checksum (JDict state) =
     (case dict_get state ''checksum'' of
        None \<Rightarrow> Inr False
      | Some stored_checksum \<Rightarrow>
          if \<not> truthy stored_checksum then Inr False
          else Inr (stored_checksum =
                 JStr (generate_checksum (JDict (filter (\<lambda>kv. fst kv \<noteq> ''checksum'') state)))))"
| "verify_checksum _ = Inl (Exception ''AttributeError'')"

definition get_or :: "(string \<times> json) list \<Rightarrow> string \<Rightarrow> json \<Rightarrow> json" where
  "get_or d k dflt = (case dict_get d k of None \<Rightarrow> dflt | Some v \<Rightarrow> v)"

fun deserialize_results :: "json \<Rightarrow> json" where
  "deserialize_results (JDict state) =
     JDict [(''can_resume'', JBool True),
            (''current_module'', get_or state ''current_module'' JNull),
            (''completed_modules'', get_or state ''completed_modules'' (JList [])),
            (''pending_modules'', get_or state ''pending_modules'' (JList [])),
            (''module_state'', get_or state ''module_state'' (JDict [])),
            (''results_cache'', get_or state ''results_cache'' (JDict []))]"
| "deserialize_results other = other"

text \<open>The dictionary \<^verbatim>\<open>save_state\<close> builds before it writes anything.\<close>

definition build_checkpoint :: "string \<Rightarrow> string \<Rightarrow> string \<Rightarrow> string list \<Rightarrow> string list
    \<Rightarrow> (string \<times> json) list \<Rightarrow> json option \<Rightarrow> json" where
  "build_checkpoint scan_id utcnow current_module completed_modules pending_modules
       results_cache module_state =
     JDict [(''scan_id'', JStr scan_id),
            (''timestamp'', JStr utcnow),
            (''current_module'', JStr current_module),
            (''completed_modules'', JList (map JStr completed_modules)),
            (''pending_modules'', JList (map JStr pending_modules)),
            (''module_state'', (case module_state of None \<Rightarrow> JDict []
                                | Some ms \<Rightarrow> if truthy ms then ms else JDict [])),
            (''results_cache'', JDict (serialize_results results_cache)),
            (''checksum'', JStr (generate_checksum (JDict results_cache)))]"

text \<open>
  \<^verbatim>\<open>save_state\<close>: two \<^verbatim>\<open>try ... except Exception\<close> blocks, the file first, the
  database second. An exception that \<^verbatim>\<open>except Exception\<close> does not catch leaves
  the function at once.
\<close>

definition write_state_file :: "'a world_scheme \<Rightarrow> string \<Rightarrow> json \<Rightarrow> file_fault \<Rightarrow> exn option \<times> 'a world_scheme" where
  "write_state_file w scan_id checkpoint fault =
     (case fault of
        NoFileFault \<Rightarrow> (None, w\<lparr>files := (files w)(scan_id \<mapsto> JsonText checkpoint)\<rparr>)
      | OpenFails e \<Rightarrow> (Some e, w)
      | WriteFails e \<Rightarrow> (Some e, w\<lparr>files := (files w)(scan_id \<mapsto> Garbage)\<rparr>))"

definition write_state_row :: "'a world_scheme \<Rightarrow> string \<Rightarrow> json \<Rightarrow> db_fault \<Rightarrow> exn option \<times> 'a world_scheme" where
  "write_state_row w scan_id checkpoint fault =
     (case fault of
        NoDbFault \<Rightarrow> (None, w\<lparr>db := save_checkpoint (db w) scan_id checkpoint\<rparr>)
      | ExecuteFails e \<Rightarrow> (Some e, w)
      | CommitFails e \<Rightarrow> (Some e, w\<lparr>db := execute_save_checkpoint (db w) scan_id checkpoint\<rparr>))"

definition uncaught :: "exn option \<Rightarrow> bool" where
  "uncaught r = (case r of None \<Rightarrow> False | Some e \<Rightarrow> \<not> caught_by_except_Exception e)"

text \<open>The second \<^verbatim>\<open>try\<close> block, entered unless the first one let an exception through.\<close>

fun then_row :: "db_fault \<Rightarrow> string \<Rightarrow> json \<Rightarrow> exn option \<times> 'a world_scheme
    \<Rightarrow> exn option \<times> 'a world_scheme" where
  "then_row fault scan_id checkpoint (r, w) =
     (if uncaught r then (r, w)
      else if uncaught (db_fault_exn fault) then write_state_row w scan_id checkpoint fault
      else (None, snd (write_state_row w scan_id checkpoint fault)))"

definition save_state :: "save_faults \<Rightarrow> string \<Rightarrow> 'a world_scheme \<Rightarrow> string \<Rightarrow> string \<Rightarrow> string list
    \<Rightarrow> string list \<Rightarrow> (string \<times> json) list \<Rightarrow> json option \<Rightarrow> exn option \<times> 'a world_scheme" where
  "save_state faults utcnow w scan_id current_module completed_modules pending_modules
       results_cache module_state =
     then_row (on_db faults) scan_id
       (build_checkpoint scan_id utcnow current_module completed_modules pending_modules
          results_cache module_state)
       (write_state_file w scan_id
          (build_checkpoint scan_id utcnow current_module completed_modules pending_modules
             results_cache module_state)
          (on_file faults))"

text \<open>
  \<^verbatim>\<open>load_state\<close>: the file first; on a missing file, a parse error, a checksum
  mismatch or any other \<^verbatim>\<open>Exception\<close> the row's blob; else \<^verbatim>\<open>None\<close>.
\<close>

definition load_from :: "json \<Rightarrow> json option" where
  "load_from state =
     (case verify_checksum state of
        Inr True \<Rightarrow> Some (deserialize_results state)
      | Inr False \<Rightarrow> None
      | Inl e \<Rightarrow> None)"

definition load_state :: "'a world_scheme \<Rightarrow> string \<Rightarrow> json option" where
  "load_state w scan_id =
     (case (case files w scan_id of
              None \<Rightarrow> None
            | Some Garbage \<Rightarrow> None
            | Some (JsonText state) \<Rightarrow> load_from state) of
        Some resume_state \<Rightarrow> Some resume_state
      | None \<Rightarrow>
          (case get_scan (db w) scan_id of
             None \<Rightarrow> None
           | Some scan \<Rightarrow>
               (case checkpoint_data scan of
                  None \<Rightarrow> None
                | Some state \<Rightarrow> load_from state)))"

text \<open>
  \<^verbatim>\<open>clear_state\<close>: \<^verbatim>\<open>if self.state_file.exists(): self.state_file.unlink()\<close> inside
  \<^verbatim>\<open>try ... except Exception\<close>. Nothing else is touched.
\<close>

definition clear_state :: "exn option \<Rightarrow> 'a world_scheme \<Rightarrow> string \<Rightarrow> exn option \<times> 'a world_scheme" where
  "clear_state unlink_fault w scan_id =
     (case files w scan_id of
        None \<Rightarrow> (None, w)
      | Some content \<Rightarrow>
          (case unlink_fault of
             None \<Rightarrow> (None, w\<lparr>files := (files w)(scan_id := None)\<rparr>)
           | Some e \<Rightarrow> (if caught_by_except_Exception e then None else Some e, w)))"


section \<open>Task queue (api/tasks.py)\<close>

datatype TaskStatus = PENDING | RUNNING | PAUSED | COMPLETED | FAILED | CANCELLED

record ScanTask =
  task_target_id :: string
  task_config :: "(string \<times> json) list"
  task_status :: TaskStatus
  task_started_at :: "nat option"
  task_completed_at :: "nat option"
  task_current_module :: "string option"
  task_progress :: "(string \<times> int) list"
  task_error_message :: "string option"

text \<open>
  The queue, the two dictionaries, \<^verbatim>\<open>_current_task\<close> and the engine all hold
  references to the same \<^verbatim>\<open>ScanTask\<close> objects. The objects live in a store
  addressed by scan id; the queue and the dictionaries are lists of addresses, a
  dictionary in the insertion order of its keys. \<open>tq_current_task\<close> is the queue's
  \<^verbatim>\<open>_current_task\<close>.
\<close>

record TaskQueue =
  tasks :: "string \<Rightarrow> ScanTask"
  queue :: "string list"
  active_tasks :: "string list"
  paused_tasks :: "string list"
  tq_current_task :: "string option"
  pause_event :: bool
  processing :: bool

record system = world +
  tq :: TaskQueue

definition key_set :: "string \<Rightarrow> string list \<Rightarrow> string list" where
  "key_set k ks = (if k \<in> set ks then ks else ks @ [k])"

definition key_del :: "string \<Rightarrow> string list \<Rightarrow> string list" where
  "key_del k ks = removeAll k ks"

definition set_task_status :: "string \<Rightarrow> TaskStatus \<Rightarrow> TaskQueue \<Rightarrow> TaskQueue" where
  "set_task_status scan_id st q = q\<lparr>tasks := (tasks q)(scan_id := (tasks q scan_id)\<lparr>task_status := st\<rparr>)\<rparr>"

definition add_task :: "nat \<Rightarrow> string \<Rightarrow> ScanTask \<Rightarrow> system \<Rightarrow> system" where
  "add_task now scan_id task s =
     s\<lparr>tq := (tq s)\<lparr>tasks := (tasks (tq s))(scan_id := task),
                     queue := queue (tq s) @ [scan_id],
                     active_tasks := key_set scan_id (active_tasks (tq s))\<rparr>,
       db := update_scan_status now (db s) scan_id ''pending'' None None\<rparr>"

definition pause_task :: "string \<Rightarrow> TaskQueue \<Rightarrow> TaskQueue" where
  "pause_task scan_id q =
     (if scan_id \<in> set (active_tasks q)
      then (set_task_status scan_id PAUSED q)
             \<lparr>paused_tasks := key_set scan_id (paused_tasks q),
              pause_event := (if tq_current_task q = Some scan_id then False else pause_event q)\<rparr>
      else q)"

definition resume_task :: "string \<Rightarrow> TaskQueue \<Rightarrow> TaskQueue" where
  "resume_task scan_id q =
     (if scan_id \<in> set (paused_tasks q)
      then (set_task_status scan_id RUNNING q)\<lparr>paused_tasks := key_del scan_id (paused_tasks q),
              active_tasks := key_set scan_id (active_tasks q), pause_event := True\<rparr>
      else q)"

text \<open>
  \<^verbatim>\<open>stop_task\<close>: the task is marked cancelled and, when it is the one being
  executed, \<^verbatim>\<open>_current_task\<close> is cleared. The queue holds no reference to the engine.
\<close>

definition stop_task :: "string \<Rightarrow> TaskQueue \<Rightarrow> TaskQueue" where
  "stop_task scan_id q =
     (if scan_id \<in> set (active_tasks q)
      then (set_task_status scan_id CANCELLED q)
             \<lparr>tq_current_task := (if tq_current_task q = Some scan_id then None else tq_current_task q)\<rparr>
      else q)"

section \<open>Stage engine (core/scanner\_engine.py)\<close>

definition MODULE_ORDER :: "string list" where
  "MODULE_ORDER = [''subdomain_enum'', ''dns_resolution'', ''http_probe'', ''port_scan'',
     ''wayback_urls'', ''js_analysis'', ''gf_patterns'', ''fuzzing'', ''nuclei_scan'']"

record ScannerEngine =
  e_scan_id :: string
  e_target_id :: string
  e_config :: "(string \<times> json) list"
  subprocess_mgr :: SubprocessManager
  results_cache :: json
  e_paused :: bool
  e_stopped :: bool

definition ScannerEngine_init :: "string \<Rightarrow> ScanTask \<Rightarrow> ScannerEngine" where
  "ScannerEngine_init scan_id task =
     \<lparr>e_scan_id = scan_id, e_target_id = task_target_id task, e_config = task_config task,
      subprocess_mgr = SubprocessManager_init, results_cache = JDict [],
      e_paused = False, e_stopped = False\<rparr>"

definition pause :: "ScannerEngine \<Rightarrow> ScannerEngine" where
  "pause e = e\<lparr>e_paused := True, subprocess_mgr := pause_all (subprocess_mgr e)\<rparr>"

definition resume :: "ScannerEngine \<Rightarrow> ScannerEngine" where
  "resume e = e\<lparr>e_paused := False, subprocess_mgr := resume_all (subprocess_mgr e)\<rparr>"

definition stop :: "ScannerEngine \<Rightarrow> ScannerEngine \<times> event list" where
  "stop e = (e\<lparr>e_stopped := True, subprocess_mgr := fst (stop_all (subprocess_mgr e))\<rparr>,
             snd (stop_all (subprocess_mgr e)))"

text \<open>\<^verbatim>\<open>list.index\<close>: \<open>None\<close> stands for \<^verbatim>\<open>ValueError\<close>.\<close>

fun list_index :: "'a \<Rightarrow> 'a list \<Rightarrow> nat option" where
  "list_index x [] = None"
| "list_index x (y # ys) = (if x = y then Some 0 else map_option Suc (list_index x ys))"

definition get_module_index :: "json \<Rightarrow> nat" where
  "get_module_index module_name =
     (if \<not> truthy module_name then 0
      else case module_name of
             JStr s \<Rightarrow> (case list_index s MODULE_ORDER of Some i \<Rightarrow> i | None \<Rightarrow> 0)
           | _ \<Rightarrow> 0)"

text \<open>
  The head of \<^verbatim>\<open>run\<close>: with a resume state whose \<^verbatim>\<open>can_resume\<close> is true the start
  index is \<^verbatim>\<open>_get_module_index(resume_state.get("current_module"))\<close> and the cache
  is taken from the state.
\<close>

definition resume_start :: "json option \<Rightarrow> ScannerEngine \<Rightarrow> nat \<times> ScannerEngine" where
  "resume_start resume_state e =
     (case resume_state of
        Some (JDict rs) \<Rightarrow>
          if rs \<noteq> [] \<and> truthy (get_or rs ''can_resume'' JNull)
          then (get_module_index (get_or rs ''current_module'' JNull),
                e\<lparr>results_cache := get_or rs ''results_cache'' (JDict [])\<rparr>)
          else (0, e)
      | _ \<Rightarrow> (0, e))"

text \<open>
  Calls that reach the queue or the engine from other coroutines while the engine is
  suspended: the three per-scan operations of the task queue, and the three methods
  of this engine.
\<close>

datatype ctl = PauseTask string | ResumeTask string | StopTask string
  | EnginePause | EngineResume | EngineStop

record run_state =
  sys :: system
  eng :: ScannerEngine
  events :: "event list"

fun ctl_apply :: "ctl \<Rightarrow> run_state \<Rightarrow> run_state" where
  "ctl_apply (PauseTask scan_id) st = st\<lparr>sys := (sys st)\<lparr>tq := pause_task scan_id (tq (sys st))\<rparr>\<rparr>"
| "ctl_apply (ResumeTask scan_id) st = st\<lparr>sys := (sys st)\<lparr>tq := resume_task scan_id (tq (sys st))\<rparr>\<rparr>"
| "ctl_apply (StopTask scan_id) st = st\<lparr>sys := (sys st)\<lparr>tq := stop_task scan_id (tq (sys st))\<rparr>\<rparr>"
| "ctl_apply EnginePause st = st\<lparr>eng := pause (eng st)\<rparr>"
| "ctl_apply EngineResume st = st\<lparr>eng := resume (eng st)\<rparr>"
| "ctl_apply EngineStop st = st\<lparr>eng := fst (stop (eng st)), events := events st @ snd (stop (eng st))\<rparr>"

definition burst :: "ctl list \<Rightarrow> run_state \<Rightarrow> run_state" where
  "burst calls st = fold ctl_apply calls st"

text \<open>
  \<^verbatim>\<open>_wait_for_resume\<close>: \<^verbatim>\<open>while self._paused and not self._stopped: await
  asyncio.sleep(1)\<close>. \<open>None\<close>: the engine waits forever.
\<close>

fun wait_for_resume :: "ctl list list \<Rightarrow> run_state \<Rightarrow> (run_state \<times> ctl list list) option" where
  "wait_for_resume [] st =
     (if e_paused (eng st) \<and> \<not> e_stopped (eng st) then None else Some (st, []))"
| "wait_for_resume (calls # sched) st =
     (if e_paused (eng st) \<and> \<not> e_stopped (eng st)
      then wait_for_resume sched (burst calls (st\<lparr>events := events st @ [SleepMs 1000]\<rparr>))
      else Some (st, calls # sched))"

text \<open>
  What a scan runs against: the scanners (module name, module configuration and
  previous results to a result or an exception), the faults that hit the checkpoint
  write after each module, the fault of the final unlink, and the two clocks.
\<close>

record scan_env =
  scanner :: "string \<Rightarrow> json \<Rightarrow> json \<Rightarrow> exn + json"
  faults_at :: "string \<Rightarrow> save_faults"
  unlink_fault :: "exn option"
  utcnow :: string
  current_timestamp :: nat

definition set_progress :: "string \<Rightarrow> string \<Rightarrow> int \<Rightarrow> TaskQueue \<Rightarrow> TaskQueue" where
  "set_progress scan_id module_name pct q =
     q\<lparr>tasks := (tasks q)(scan_id :=
          (tasks q scan_id)\<lparr>task_progress := dict_put module_name pct (task_progress (tasks q scan_id))\<rparr>)\<rparr>"

definition set_current_module :: "string \<Rightarrow> string \<Rightarrow> TaskQueue \<Rightarrow> TaskQueue" where
  "set_current_module scan_id module_name q =
     q\<lparr>tasks := (tasks q)(scan_id := (tasks q scan_id)\<lparr>task_current_module := Some module_name\<rparr>)\<rparr>"

definition stop_on_error :: "ScannerEngine \<Rightarrow> bool" where
  "stop_on_error e = truthy (get_or (e_config e) ''stop_on_error'' (JBool False))"

text \<open>The \<^verbatim>\<open>except Exception\<close> clause of \<^verbatim>\<open>_run_module\<close>.\<close>

definition module_failed :: "exn \<Rightarrow> ScannerEngine \<Rightarrow> exn option" where
  "module_failed e en =
     (if caught_by_except_Exception e then (if stop_on_error en then Some e else None) else Some e)"

definition status_running :: "scan_env \<Rightarrow> string option \<Rightarrow> run_state \<Rightarrow> run_state" where
  "status_running env task st =
     st\<lparr>sys := (sys st)\<lparr>db := update_scan_status (current_timestamp env) (db (sys st))
                (e_scan_id (eng st)) ''running'' task
                (Some (task_progress (tasks (tq (sys st)) (e_scan_id (eng st)))))\<rparr>\<rparr>"

text \<open>
  The statements of \<^verbatim>\<open>_run_module\<close> before the \<^verbatim>\<open>try\<close>: the task's current
  module and progress entry, and the row update.
\<close>

definition announce :: "scan_env \<Rightarrow> string \<Rightarrow> run_state \<Rightarrow> run_state" where
  "announce env module_name st =
     status_running env (Some (''Running '' @ module_name))
       (st\<lparr>events := events st @ [RunModule module_name],
           sys := (sys st)\<lparr>tq := set_progress (e_scan_id (eng st)) module_name 0
                     (set_current_module (e_scan_id (eng st)) module_name (tq (sys st)))\<rparr>\<rparr>)"

text \<open>
  The body of the \<^verbatim>\<open>try\<close> once the scanner has returned: cache the result, set
  the progress to 100, update the row, save the checkpoint. Assigning into a cache
  that is not a dictionary raises \<^verbatim>\<open>TypeError\<close>.
\<close>

definition cache_result :: "string \<Rightarrow> json \<Rightarrow> (string \<times> json) list \<Rightarrow> run_state \<Rightarrow> run_state" where
  "cache_result module_name module_results cache st =
     st\<lparr>eng := (eng st)\<lparr>results_cache := JDict (dict_put module_name module_results cache)\<rparr>\<rparr>"

definition progress_done :: "string \<Rightarrow> run_state \<Rightarrow> run_state" where
  "progress_done module_name st =
     st\<lparr>sys := (sys st)\<lparr>tq := set_progress (e_scan_id (eng st)) module_name 100 (tq (sys st))\<rparr>\<rparr>"

fun cache_items :: "json \<Rightarrow> (string \<times> json) list" where
  "cache_items (JDict cache) = cache"
| "cache_items _ = []"

definition checkpoint :: "scan_env \<Rightarrow> string \<Rightarrow> nat \<Rightarrow> run_state \<Rightarrow> exn option \<times> run_state" where
  "checkpoint env module_name index st =
     (case save_state (faults_at env module_name) (utcnow env) (sys st) (e_scan_id (eng st))
             module_name (take (index + 1) MODULE_ORDER) (drop (index + 1) MODULE_ORDER)
             (cache_items (results_cache (eng st))) None of
        (None, s') \<Rightarrow> (None, st\<lparr>sys := s'\<rparr>)
      | (Some e, s') \<Rightarrow> (module_failed e (eng st), st\<lparr>sys := s'\<rparr>))"

definition module_done :: "scan_env \<Rightarrow> string \<Rightarrow> nat \<Rightarrow> json \<Rightarrow> run_state \<Rightarrow> exn option \<times> run_state" where
  "module_done env module_name index module_results st =
     (case results_cache (eng st) of
        JDict cache \<Rightarrow>
          checkpoint env module_name index
            (status_running env None
               (progress_done module_name (cache_result module_name module_results cache st)))
      | _ \<Rightarrow> (module_failed (Exception ''TypeError'') (eng st), st))"

text \<open>
  The \<^verbatim>\<open>try\<close> of \<^verbatim>\<open>_run_module\<close> from the call of the scanner on. The calls of
  other coroutines that arrive while the scanner is awaited have been applied.
\<close>

definition after_scan :: "scan_env \<Rightarrow> string \<Rightarrow> nat \<Rightarrow> run_state \<Rightarrow> exn option \<times> run_state" where
  "after_scan env module_name index st =
     (case scanner env module_name (get_or (e_config (eng st)) module_name (JDict []))
             (results_cache (eng st)) of
        Inl e \<Rightarrow> (module_failed e (eng st), st)
      | Inr module_results \<Rightarrow> module_done env module_name index module_results st)"

definition next_calls :: "ctl list list \<Rightarrow> ctl list" where
  "next_calls sched = (case sched of [] \<Rightarrow> [] | calls # _ \<Rightarrow> calls)"

definition run_module :: "scan_env \<Rightarrow> string \<Rightarrow> nat \<Rightarrow> run_state \<Rightarrow> ctl list list
    \<Rightarrow> exn option \<times> run_state \<times> ctl list list" where
  "run_module env module_name index st sched =
     (if module_name \<notin> set MODULE_ORDER then (None, announce env module_name st, sched)
      else (case after_scan env module_name index (burst (next_calls sched) (announce env module_name st)) of
              (r, st') \<Rightarrow> (r, st', tl sched)))"

text \<open>The \<^verbatim>\<open>for\<close> loop of \<^verbatim>\<open>run\<close> over the enumerated modules.\<close>

fun run_loop :: "scan_env \<Rightarrow> (nat \<times> string) list \<Rightarrow> run_state \<Rightarrow> ctl list list
    \<Rightarrow> (exn option \<times> run_state \<times> ctl list list) option" where
  "run_loop env [] st sched = Some (None, st, sched)"
| "run_loop env ((i, module_name) # rest) st sched =
     (if e_stopped (eng st) then Some (None, st, sched)
      else (case (if e_paused (eng st) then wait_for_resume sched st else Some (st, sched)) of
              None \<Rightarrow> None
            | Some (st1, sched1) \<Rightarrow>
                if e_stopped (eng st1) then Some (None, st1, sched1)
                else (case run_module env module_name i st1 sched1 of
                        (Some e, st2, sched2) \<Rightarrow> Some (Some e, st2, sched2)
                      | (None, st2, sched2) \<Rightarrow> run_loop env rest st2 sched2)))"

definition run_engine :: "scan_env \<Rightarrow> run_state \<Rightarrow> ctl list list
    \<Rightarrow> (exn option \<times> run_state \<times> ctl list list) option" where
  "run_engine env st sched =
     (case resume_start (load_state (sys st) (e_scan_id (eng st))) (eng st) of
        (start_index, en) \<Rightarrow>
          (case run_loop env (enumerate start_index (drop start_index MODULE_ORDER))
                  (st\<lparr>eng := en\<rparr>) sched of
             None \<Rightarrow> None
           | Some (Some e, st1, sched1) \<Rightarrow> Some (Some e, st1, sched1)
           | Some (None, st1, sched1) \<Rightarrow>
               if \<not> e_stopped (eng st1)
               then (case clear_state (unlink_fault env) (sys st1) (e_scan_id (eng st1)) of
                       (r, s') \<Rightarrow> Some (r, st1\<lparr>sys := s'\<rparr>, sched1))
               else Some (None, st1, sched1)))"

text \<open>
  \<^verbatim>\<open>TaskQueue._execute_task\<close>. The \<^verbatim>\<open>except\<close> clause calls
  \<^verbatim>\<open>update_scan_status(..., error_message=str(e))\<close>; \<^verbatim>\<open>update_scan_status\<close> has no
  such parameter, so that call raises \<^verbatim>\<open>TypeError\<close> before anything is written.
  The \<^verbatim>\<open>finally\<close> clause clears \<^verbatim>\<open>_current_task\<close> and the entry of the active map.
\<close>

definition finally_execute :: "string \<Rightarrow> system \<Rightarrow> system" where
  "finally_execute scan_id s =
     s\<lparr>tq := (tq s)\<lparr>tq_current_task := None, active_tasks := key_del scan_id (active_tasks (tq s))\<rparr>\<rparr>"

definition mark_task :: "string \<Rightarrow> (ScanTask \<Rightarrow> ScanTask) \<Rightarrow> system \<Rightarrow> system" where
  "mark_task scan_id f s = s\<lparr>tq := (tq s)\<lparr>tasks := (tasks (tq s))(scan_id := f (tasks (tq s) scan_id))\<rparr>\<rparr>"

definition begin_task :: "scan_env \<Rightarrow> string \<Rightarrow> system \<Rightarrow> system" where
  "begin_task env scan_id s =
     (mark_task scan_id (\<lambda>t. t\<lparr>task_status := RUNNING, task_started_at := Some (current_timestamp env)\<rparr>) s)
       \<lparr>db := update_scan_status (current_timestamp env) (db s) scan_id ''running''
                (Some ''Initializing'') None\<rparr>"

definition complete_task :: "scan_env \<Rightarrow> string \<Rightarrow> system \<Rightarrow> system" where
  "complete_task env scan_id s =
     (mark_task scan_id (\<lambda>t. t\<lparr>task_status := COMPLETED, task_completed_at := Some (current_timestamp env)\<rparr>) s)
       \<lparr>db := update_scan_status (current_timestamp env) (db s) scan_id ''completed'' None None\<rparr>"

fun exn_text :: "exn \<Rightarrow> string" where
  "exn_text (Exception m) = m"
| "exn_text (BaseException m) = m"

definition fail_task :: "string \<Rightarrow> exn \<Rightarrow> system \<Rightarrow> system" where
  "fail_task scan_id e s =
     mark_task scan_id (\<lambda>t. t\<lparr>task_status := FAILED, task_error_message := Some (exn_text e)\<rparr>) s"

fun finish_task :: "scan_env \<Rightarrow> string \<Rightarrow> (exn option \<times> run_state \<times> ctl list list) option
    \<Rightarrow> (exn option \<times> system \<times> ScannerEngine \<times> event list) option" where
  "finish_task env scan_id None = None"
| "finish_task env scan_id (Some (None, st, sched)) =
     Some (None, finally_execute scan_id (complete_task env scan_id (sys st)), eng st, events st)"
| "finish_task env scan_id (Some (Some e, st, sched)) =
     (if caught_by_except_Exception e
      then Some (Some (Exception ''TypeError''), finally_execute scan_id (fail_task scan_id e (sys st)),
                 eng st, events st)
      else Some (Some e, finally_execute scan_id (sys st), eng st, events st))"

definition execute_task :: "scan_env \<Rightarrow> string \<Rightarrow> system \<Rightarrow> ctl list list
    \<Rightarrow> (exn option \<times> system \<times> ScannerEngine \<times> event list) option" where
  "execute_task env scan_id s sched =
     finish_task env scan_id
       (run_engine env
          \<lparr>sys = begin_task env scan_id s,
           eng = ScannerEngine_init scan_id (tasks (tq (begin_task env scan_id s)) scan_id),
           events = []\<rparr> sched)"

text \<open>
  One round of \<^verbatim>\<open>process_loop\<close> that finds a task: wait for the pause event, take
  the head of the queue, drop it when it is cancelled, else make it the current task
  and execute it. \<open>None\<close> when there is nothing to run or the execution never returns.
\<close>

definition dequeue :: "system \<Rightarrow> system" where
  "dequeue s = s\<lparr>tq := (tq s)\<lparr>queue := tl (queue (tq s))\<rparr>\<rparr>"

definition set_current :: "string \<Rightarrow> system \<Rightarrow> system" where
  "set_current scan_id s = s\<lparr>tq := (tq s)\<lparr>tq_current_task := Some scan_id\<rparr>\<rparr>"

definition process_next :: "scan_env \<Rightarrow> system \<Rightarrow> ctl list list
    \<Rightarrow> (exn option \<times> system \<times> ScannerEngine \<times> event list) option" where
  "process_next env s sched =
     (if \<not> pause_event (tq s) then None
      else case queue (tq s) of
             [] \<Rightarrow> None
           | scan_id # rest \<Rightarrow>
               if task_status (tasks (tq s) scan_id) = CANCELLED then None
               else execute_task env scan_id (set_current scan_id (dequeue s)) sched)"

section \<open>Resilience monitor (api/resilience\_manager.py)\<close>

record ResilienceManager =
  offline_since :: "nat option"
  was_paused_by_outage :: bool
  pause_threshold :: nat
  resume_delay :: nat

definition ResilienceManager_init :: ResilienceManager where
  "ResilienceManager_init =
     \<lparr>offline_since = None, was_paused_by_outage = False, pause_threshold = 30, resume_delay = 10\<rparr>"

text \<open>One iteration of the loop of \<^verbatim>\<open>_auto_pause\<close> and of \<^verbatim>\<open>_auto_resume\<close>.\<close>

definition pause_one :: "nat \<Rightarrow> string \<Rightarrow> system \<Rightarrow> system" where
  "pause_one now scan_id s =
     s\<lparr>tq := pause_task scan_id (tq s),
       db := update_scan_status now (db s) scan_id ''paused'' None None\<rparr>"

definition resume_one :: "nat \<Rightarrow> string \<Rightarrow> system \<Rightarrow> system" where
  "resume_one now scan_id s =
     s\<lparr>tq := resume_task scan_id (tq s),
       db := update_scan_status now (db s) scan_id ''running'' None None\<rparr>"

definition auto_pause :: "nat \<Rightarrow> ResilienceManager \<times> system \<Rightarrow> ResilienceManager \<times> system" where
  "auto_pause now rs =
     (case rs of (rm, s) \<Rightarrow>
        (let s1 = fold (pause_one now) (active_tasks (tq s)) s
         in (rm\<lparr>was_paused_by_outage := True\<rparr>,
             s1\<lparr>db := update_system_state (db s1) None (Some ''offline'')\<rparr>)))"

definition auto_resume :: "nat \<Rightarrow> ResilienceManager \<times> system \<Rightarrow> ResilienceManager \<times> system" where
  "auto_resume now rs =
     (case rs of (rm, s) \<Rightarrow>
        (let s1 = fold (resume_one now) (paused_tasks (tq s)) s
         in (rm\<lparr>was_paused_by_outage := False\<rparr>,
             s1\<lparr>db := update_system_state (db s1) None (Some ''online'')\<rparr>)))"

text \<open>
  \<^verbatim>\<open>_handle_network_state(is_online)\<close> at time \<open>now\<close> (seconds). The events record
  the \<^verbatim>\<open>asyncio.sleep(self._resume_delay)\<close> before the resume.
\<close>

definition handle_network_state :: "nat \<Rightarrow> bool \<Rightarrow> ResilienceManager \<times> system
    \<Rightarrow> (ResilienceManager \<times> system) \<times> event list" where
  "handle_network_state now is_online rs =
     (case rs of (rm, s) \<Rightarrow>
        if \<not> is_online
        then (let rm1 = (case offline_since rm of None \<Rightarrow> rm\<lparr>offline_since := Some now\<rparr> | Some _ \<Rightarrow> rm);
                  offline_duration = now - (case offline_since rm1 of None \<Rightarrow> now | Some t \<Rightarrow> t)
              in if offline_duration \<ge> pause_threshold rm1 \<and> \<not> was_paused_by_outage rm1
                 then (auto_pause now (rm1, s), [])
                 else ((rm1, s), []))
        else (case offline_since rm of
                None \<Rightarrow> ((rm, s), [])
              | Some _ \<Rightarrow>
                  (let rm1 = rm\<lparr>offline_since := None\<rparr>
                   in if was_paused_by_outage rm1
                      then (auto_resume now (rm1, s), [SleepMs (1000 * resume_delay rm1)])
                      else ((rm1, s), []))))"

definition trigger_pause :: "system \<Rightarrow> system" where
  "trigger_pause s = s\<lparr>tq := fold pause_task (active_tasks (tq s)) (tq s)\<rparr>"

definition trigger_resume :: "system \<Rightarrow> system" where
  "trigger_resume s = s\<lparr>tq := fold resume_task (paused_tasks (tq s)) (tq s)\<rparr>"

section \<open>Control surface (api/main.py), the per-scan routes\<close>

text \<open>
  \<^verbatim>\<open>pause_scan\<close> and \<^verbatim>\<open>resume_scan\<close> call the queue and then write the row.
  \<^verbatim>\<open>stop_scan\<close> calls \<^verbatim>\<open>stop_task\<close> and then
  \<^verbatim>\<open>update_scan_status(scan_id, "failed", error_message="Stopped by user")\<close>, which
  raises \<^verbatim>\<open>TypeError\<close> for the unknown keyword before it writes.
\<close>

definition pause_scan :: "nat \<Rightarrow> string \<Rightarrow> system \<Rightarrow> system" where
  "pause_scan now scan_id s =
     s\<lparr>tq := pause_task scan_id (tq s),
       db := update_scan_status now (db s) scan_id ''paused'' None None\<rparr>"

definition resume_scan :: "nat \<Rightarrow> string \<Rightarrow> system \<Rightarrow> system" where
  "resume_scan now scan_id s =
     s\<lparr>tq := resume_task scan_id (tq s),
       db := update_scan_status now (db s) scan_id ''running'' None None\<rparr>"

definition stop_scan :: "string \<Rightarrow> system \<Rightarrow> exn option \<times> system" where
  "stop_scan scan_id s = (Some (Exception ''TypeError''), s\<lparr>tq := stop_task scan_id (tq s)\<rparr>)"

text \<open>A scan is running in the queue: its task says so and the active map holds it.\<close>

definition running_in :: "string \<Rightarrow> system \<Rightarrow> bool" where
  "running_in k s = (task_status (tasks (tq s) k) = RUNNING \<and> k \<in> set (active_tasks (tq s)))"


section \<open>Concrete scenarios\<close>

subsection \<open>A tool that is missing and installs cleanly\<close>

definition nuclei_config :: tool_config where
  "nuclei_config = \<lparr>binary_path = Some ''~/go/bin/nuclei'',
     install_cmd = Some ''go install github.com/projectdiscovery/nuclei/v3/cmd/nuclei@latest'',
     version_check = Some ''nuclei -version'', category = Some ''vuln'',
     description = None, enabled = Some True\<rparr>"

definition tm0 :: ToolManager where
  "tm0 = \<lparr>tools_config = [''nuclei'' \<mapsto> nuclei_config], tm_subprocess_mgr = SubprocessManager_init,
          installed_tools = Map.empty, tm_events = []\<rparr>"

definition env_missing :: tool_env where
  "env_missing = \<lparr>which = (\<lambda>_. False), expanduser = (\<lambda>p. p),
     version_probe = (\<lambda>_. Inr ''v3''),
     install_child = (\<lambda>_. \<lparr>spawn_error = None, out_chunks = [(20000, Line (ustr ''ok'' @ [10]))],
                            out_eof = 20000, err_chunks = [], err_eof = 20000,
                            exits_at = Some 20000, exit_status = 0\<rparr>)\<rparr>"

subsection \<open>Children of the process supervisor\<close>





subsection \<open>A scan row that has completed\<close>

definition row_done :: scan_row where
  "row_done = \<lparr>target_id = ''t1'', name = Some ''acme'', profile = ''normal'', status = ''completed'',
     started_at = Some 10, completed_at = Some 20, progress = JDict [],
     current_task = Some ''Running nuclei_scan'', config = JDict [], error_message = None,
     checkpoint_data = None, is_resumed = False, llm_model_used = None, created_at = 5\<rparr>"

definition db_done :: database where
  "db_done = stored [''s1'' \<mapsto> row_done] []"

subsection \<open>A pending scan, its task and an environment in which every scanner succeeds\<close>

definition blank_task :: ScanTask where
  "blank_task = \<lparr>task_target_id = [], task_config = [], task_status = PENDING,
     task_started_at = None, task_completed_at = None, task_current_module = None,
     task_progress = [], task_error_message = None\<rparr>"

definition task_t1 :: ScanTask where
  "task_t1 = blank_task\<lparr>task_target_id := ''t1''\<rparr>"

definition row_pending :: scan_row where
  "row_pending = \<lparr>target_id = ''t1'', name = Some ''acme'', profile = ''normal'', status = ''pending'',
     started_at = None, completed_at = None, progress = JDict [], current_task = None,
     config = JDict [], error_message = None, checkpoint_data = None, is_resumed = False,
     llm_model_used = None, created_at = 5\<rparr>"

definition sys0 :: system where
  "sys0 = \<lparr>files = Map.empty,
     db = stored [''s1'' \<mapsto> row_pending, ''u0'' \<mapsto> row_pending, ''u2'' \<mapsto> row_pending] [],
     tq = \<lparr>tasks = (\<lambda>_. blank_task), queue = [], active_tasks = [], paused_tasks = [],
            tq_current_task = None, pause_event = True, processing = True\<rparr>\<rparr>"

definition env0 :: scan_env where
  "env0 = \<lparr>scanner = (\<lambda>module_name cfg previous. Inr (JList [])), faults_at = (\<lambda>_. no_faults),
     unlink_fault = None, utcnow = ''2024-01-01T00:00:00'', current_timestamp = 100\<rparr>"

text \<open>
  What is read off the end of an execution for scan \<open>s1\<close>: the exception that left
  \<^verbatim>\<open>_execute_task\<close>, the engine's stop flag, the events, the row's status and error
  message, whether the checkpoint file is gone, and whether the row still holds a
  checkpoint blob.
\<close>

definition observe :: "(exn option \<times> system \<times> ScannerEngine \<times> event list) option
    \<Rightarrow> (exn option \<times> bool \<times> event list \<times> string option \<times> string option option
         \<times> bool \<times> bool) option" where
  "observe r =
     map_option (\<lambda>(x, s, e, ev).
        (x, e_stopped e, ev, map_option status (scans (db s) ''s1''),
         map_option error_message (scans (db s) ''s1''), files s ''s1'' = None,
         (case scans (db s) ''s1'' of None \<Rightarrow> False | Some row \<Rightarrow> checkpoint_data row \<noteq> None))) r"

text \<open>Scan \<open>s1\<close> queued, taken from the queue and about to run its first module.\<close>

definition s1_started :: run_state where
  "s1_started =
     \<lparr>sys = begin_task env0 ''s1'' (set_current ''s1'' (dequeue (add_task 90 ''s1'' task_t1 sys0))),
      eng = ScannerEngine_init ''s1'' task_t1, events = []\<rparr>"

subsection \<open>Resuming after \<open>http_probe\<close>\<close>





subsection \<open>An outage with a scan paused by the user before it and another during it\<close>

text \<open>
  Scans \<open>u0\<close> and \<open>s1\<close> are queued and the user pauses \<open>u0\<close>. The probe fails at
  second 100 and again at second 130, when the monitor pauses every active scan.
  During the outage \<open>u2\<close> is queued and paused by the user. The probe succeeds at
  second 140.
\<close>

definition before_outage :: system where
  "before_outage = pause_scan 3 ''u0'' (add_task 2 ''s1'' task_t1 (add_task 1 ''u0'' task_t1 sys0))"

definition outage_pause :: "ResilienceManager \<times> system" where
  "outage_pause =
     fst (handle_network_state 130 False
            (fst (handle_network_state 100 False (ResilienceManager_init, before_outage))))"

definition before_recovery :: "ResilienceManager \<times> system" where
  "before_recovery =
     (fst outage_pause, pause_scan 136 ''u2'' (add_task 135 ''u2'' task_t1 (snd outage_pause)))"

subsection \<open>A stored checkpoint and a second save that meets a full disk\<close>

definition old_checkpoint :: json where
  "old_checkpoint = build_checkpoint ''s1'' ''2024-01-01T00:00:00'' ''subdomain_enum''
     (take 1 MODULE_ORDER) (drop 1 MODULE_ORDER) [(''subdomain_enum'', JList [])] None"

definition world_prev :: world where
  "world_prev = \<lparr>files = [''s1'' \<mapsto> JsonText old_checkpoint],
     db = stored [''s1'' \<mapsto> row_pending\<lparr>status := ''running'', checkpoint_data := Some old_checkpoint\<rparr>] []\<rparr>"




subsection \<open>The first checkpoint of a scan\<close>

text \<open>
  The cache after \<open>subdomain_enum\<close>, the checkpoint dictionary without its checksum
  entry, a world with the scan's row and no checkpoint file, and the save of the first
  checkpoint into it.
\<close>

definition cache1 :: "(string \<times> json) list" where
  "cache1 = [(''subdomain_enum'', JList [JStr ''www.example.com''])]"

definition payload1 :: "(string \<times> json) list" where
  "payload1 = [(''scan_id'', JStr ''s1''), (''timestamp'', JStr ''2024-01-01T00:00:00''),
     (''current_module'', JStr ''subdomain_enum''),
     (''completed_modules'', JList (map JStr (take 1 MODULE_ORDER))),
     (''pending_modules'', JList (map JStr (drop 1 MODULE_ORDER))),
     (''module_state'', JDict []), (''results_cache'', JDict cache1)]"

definition world0 :: world where
  "world0 = \<lparr>files = Map.empty, db = stored [''s1'' \<mapsto> row_pending] []\<rparr>"

definition saved1 :: "exn option \<times> world" where
  "saved1 = save_state no_faults ''2024-01-01T00:00:00'' world0 ''s1'' ''subdomain_enum''
     (take 1 MODULE_ORDER) (drop 1 MODULE_ORDER) cache1 None"


section \<open>Rule sets for evaluating the definitions\<close>

lemmas run_defs = run_def supervise_def gather_readers_def raised_def watching_def mgr_at_def
  calls_until_def process_result_def leave_def signals_until_def stop_signals_def tracked_def
  register_def unregister_def shlex_split_error_def no_argv_def call_back_def rstrip_def
  is_space_def join_lines_def ustr_def gone_def pipe_end_def wait_while_paused.simps
  pause_all_def resume_all_def stop_all_def

lemmas eval_defs = process_next_def execute_task_def run_engine_def run_module_def module_done_def
  status_running_def set_progress_def set_current_module_def stop_on_error_def module_failed_def
  mark_task_def finally_execute_def ScannerEngine_init_def SubprocessManager_init_def
  load_state_def load_from_def get_scan_def resume_start_def MODULE_ORDER_def
  save_state_def write_state_file_def write_state_row_def uncaught_def save_checkpoint_def
  execute_save_checkpoint_def commit_def stored_def
  clear_state_def update_scan_status_def is_scan_started_def add_task_def key_set_def key_del_def
  burst_def stop_task_def pause_task_def resume_task_def set_task_status_def get_or_def dict_get_def
  no_faults_def announce_def cache_result_def progress_done_def checkpoint_def after_scan_def
  next_calls_def begin_task_def complete_task_def fail_task_def dequeue_def set_current_def

lemmas scan_defs = observe_def env0_def sys0_def row_pending_def task_t1_def blank_task_def


section \<open>Evaluating the digest\<close>

text \<open>
  The 32-bit operations are written on naturals below \<open>2 ^ 32\<close>: addition wraps and
  \<open>rotr\<close> moves the low bits to the top.
\<close>

lemma add32_mod:
  "x < 4294967296 \<Longrightarrow> y < 4294967296 \<Longrightarrow> add32 x y = (x + y) mod 4294967296"
  by (simp add: add32_def wrap32_def le_mod_geq)

lemma rotr_div_mod: "rotr n x = x div 2 ^ n + (x mod 2 ^ n) * 2 ^ (32 - n)"
  by (simp add: rotr_def drop_bit_eq_div take_bit_eq_mod push_bit_eq_mult)

lemma zeros_numeral: "zeros (numeral k) = 0 # zeros (pred_numeral k)"
  by (simp add: numeral_eq_Suc)

lemmas sha_defs = wrap32_def add32_def not32_def shr_def rotr_def ch_def maj_def bsig0_def bsig1_def
  ssig0_def ssig1_def compress_def sha256_hexdigest_def sha256_init_def sha_pad_def be64_def
  K256_def hex32_def hexdigit_def zeros_numeral

lemma sha256_abc:
  "sha256_hexdigest ''abc'' = ''ba7816bf8f01cfea414140de5dae2223b00361a396177a9cb410ff61f20015ad''"
  by (simp add: sha_defs)


section \<open>Properties of the tool registry\<close>

lemma install_tool_True_memo:
  "install_tool env tm t = Some (Inr True, tm') \<Longrightarrow> installed_tools tm' t = Some True"
  by (auto simp: install_tool_def Let_def split: if_splits option.splits sum.splits prod.splits)

lemma ensure_tool_True_memo:
  "ensure_tool env tm t = Some (Inr True, tm') \<Longrightarrow> installed_tools tm' t = Some True"
  by (auto simp: ensure_tool_def split: option.splits sum.splits prod.splits if_splits
           dest: install_tool_True_memo)

text \<open>
  C9. Once \<^verbatim>\<open>ensure_tool\<close> has returned \<open>True\<close> for a tool (through the probe, through
  an install, or through the memo), calling it again, on whatever machine state,
  returns \<open>True\<close> from the memo and leaves the manager as it is: in particular no
  further install command is launched.
\<close>

theorem ensure_tool_idempotent:
  assumes "ensure_tool env tm t = Some (Inr True, tm')"
  shows "ensure_tool env' tm' t = Some (Inr True, tm')"
  using ensure_tool_True_memo [OF assms] by (simp add: ensure_tool_def)

theorem ensure_tool_idempotent_witness:
  "ensure_tool env_missing tm0 ''nuclei'' =
     Some (Inr True, tm0\<lparr>installed_tools := [''nuclei'' \<mapsto> True],
        tm_events := [Launch ''go install github.com/projectdiscovery/nuclei/v3/cmd/nuclei@latest'']\<rparr>)
   \<and> ensure_tool env_missing
        (tm0\<lparr>installed_tools := [''nuclei'' \<mapsto> True],
           tm_events := [Launch ''go install github.com/projectdiscovery/nuclei/v3/cmd/nuclei@latest'']\<rparr>)
        ''nuclei'' =
     Some (Inr True, tm0\<lparr>installed_tools := [''nuclei'' \<mapsto> True],
        tm_events := [Launch ''go install github.com/projectdiscovery/nuclei/v3/cmd/nuclei@latest'']\<rparr>)"
proof -
  have first: "ensure_tool env_missing tm0 ''nuclei'' =
     Some (Inr True, tm0\<lparr>installed_tools := [''nuclei'' \<mapsto> True],
        tm_events := [Launch ''go install github.com/projectdiscovery/nuclei/v3/cmd/nuclei@latest'']\<rparr>)"
    by (simp add: ensure_tool_def check_tool_def install_tool_def tool_config_falsy_def tm0_def
        nuclei_config_def env_missing_def resolve_path_def run_defs Let_def
        SubprocessManager_init_def)
  from ensure_tool_idempotent [OF first, of env_missing] first show ?thesis by simp
qed


section \<open>Properties of the process supervisor and of pausing\<close>

lemma burst_Nil [simp]: "burst [] st = st"
  by (simp add: burst_def)

lemma mgr_at_Nil [simp]: "mgr_at m [] t = m"
  by (simp add: mgr_at_def calls_until_def)

lemma register_flags [simp]:
  "sp_paused (register t m) = sp_paused m" "sp_stopped (register t m) = sp_stopped m"
  by (simp_all add: register_def split: option.splits)


lemma takeWhile_never [simp]: "takeWhile (\<lambda>p. False) xs = []"
  by (cases xs) simp_all














lemma wait_for_resume_running [simp]:
  "\<not> e_paused (eng st) \<Longrightarrow> wait_for_resume sched st = Some (st, sched)"
  by (cases sched) simp_all






section \<open>Properties of the artifact store\<close>

text \<open>
  C4, as the code has it. \<^verbatim>\<open>update_scan_status\<close> writes whatever the row's present
  status is: on an existing row the status becomes the one passed, the current task
  and the progress are overwritten when a non-empty value is passed, and the
  checkpoint blob, the error message and the remaining columns of the row, as well as
  every other row, stay as they are. Nothing makes completed or failed absorbing.
\<close>

theorem update_scan_status_unconditional:
  assumes "scans d scan_id = Some row"
  shows "\<exists>row'. scans (update_scan_status now d scan_id st task prog) scan_id = Some row'
      \<and> status row' = st
      \<and> current_task row' = (case task of None \<Rightarrow> current_task row
                              | Some t \<Rightarrow> if t = [] then current_task row else Some t)
      \<and> progress row' = (case prog of None \<Rightarrow> progress row
                          | Some p \<Rightarrow> if p = [] then progress row else progress_json p)
      \<and> checkpoint_data row' = checkpoint_data row
      \<and> error_message row' = error_message row
      \<and> target_id row' = target_id row \<and> name row' = name row \<and> profile row' = profile row
      \<and> config row' = config row \<and> is_resumed row' = is_resumed row
      \<and> llm_model_used row' = llm_model_used row \<and> created_at row' = created_at row
      \<and> (\<forall>other. other \<noteq> scan_id \<longrightarrow>
            scans (update_scan_status now d scan_id st task prog) other = scans d other)"
  using assms by (auto simp: update_scan_status_def commit_def Let_def split: option.splits)

theorem update_scan_status_unconditional_witness:
  "scans db_done ''s1'' = Some row_done
   \<and> (\<exists>row'. scans (update_scan_status 30 db_done ''s1'' ''paused'' None None) ''s1'' = Some row'
         \<and> status row' = ''paused'' \<and> checkpoint_data row' = checkpoint_data row_done)"
proof -
  have h: "scans db_done ''s1'' = Some row_done"
    by (simp add: db_done_def stored_def)
  from update_scan_status_unconditional [OF h, of 30 "''paused''" None None] h
  show ?thesis by blast
qed

text \<open>
  C4 as stated fails: a row that is completed is moved back to running by the next
  status update (the one \<^verbatim>\<open>_auto_resume\<close> issues for every id of the paused map).
\<close>

theorem terminal_not_absorbing_counterexample:
  "map_option status (scans db_done ''s1'') = Some ''completed''
   \<and> map_option status (scans (update_scan_status 30 db_done ''s1'' ''running'' None None) ''s1'') =
       Some ''running''"
  by (simp add: update_scan_status_def commit_def stored_def db_done_def row_done_def is_scan_started_def)


section \<open>Properties of the stage engine\<close>

text \<open>
  C5, as the code has it. The clearance step leaves the store alone, so the row's
  checkpoint blob stays. It leaves the files of other scans alone. When the unlink
  does not fail it returns normally and the scan's checkpoint file is gone; when the
  unlink fails the files are as before.
\<close>

theorem clear_state_removes_file_only:
  "db (snd (clear_state unlink w scan_id)) = db w
   \<and> (\<forall>other. other \<noteq> scan_id \<longrightarrow>
         files (snd (clear_state unlink w scan_id)) other = files w other)
   \<and> (unlink = None \<longrightarrow> fst (clear_state unlink w scan_id) = None
         \<and> files (snd (clear_state unlink w scan_id)) scan_id = None)
   \<and> (unlink \<noteq> None \<longrightarrow> files (snd (clear_state unlink w scan_id)) = files w)"
  by (auto simp: clear_state_def split: option.splits)

theorem clear_state_removes_file_only_witness:
  "files world_prev ''s1'' = Some (JsonText old_checkpoint)
   \<and> fst (clear_state None world_prev ''s1'') = None
   \<and> files (snd (clear_state None world_prev ''s1'')) ''s1'' = None
   \<and> map_option checkpoint_data (scans (db (snd (clear_state None world_prev ''s1''))) ''s1'') =
       Some (Some old_checkpoint)"
proof -
  have h: "files world_prev ''s1'' = Some (JsonText old_checkpoint)"
    "map_option checkpoint_data (scans (db world_prev) ''s1'') = Some (Some old_checkpoint)"
    by (simp_all add: world_prev_def stored_def)
  from clear_state_removes_file_only [of None world_prev "''s1''"] h show ?thesis by simp
qed

text \<open>
  C5 as stated fails. Scan \<open>s1\<close> is queued and executed with every scanner succeeding
  and nobody interfering. All nine modules run, no exception leaves the execution and
  the row ends completed. The clearance has removed the checkpoint file, but the row
  still holds the checkpoint blob written after the last module.
\<close>

theorem completed_scan_keeps_row_checkpoint_counterexample:
  "observe (process_next env0 (add_task 90 ''s1'' task_t1 sys0) []) =
     Some (None, False, map RunModule MODULE_ORDER, Some ''completed'', Some None, True, True)"
  by (simp add: scan_defs eval_defs)

text \<open>
  C3. Scan \<open>s1\<close> is being executed and \<^verbatim>\<open>stop_task\<close> is called for it while its first
  module is in flight. When that module ends the task is marked cancelled, only the
  first module has begun, and the engine's stop flag is clear. The eight remaining
  modules then begin, no exception leaves the execution, the stop flag is still clear
  at the end, and the row ends completed with no error message. The follow-up write
  of the stop route raises \<^verbatim>\<open>TypeError\<close> and leaves the store as it was.
\<close>

theorem stop_task_does_not_stop_engine:
  "task_status (tasks (tq (sys (fst (snd (run_module env0 ''subdomain_enum'' 0 s1_started
       [[StopTask ''s1'']]))))) ''s1'') = CANCELLED
   \<and> events (fst (snd (run_module env0 ''subdomain_enum'' 0 s1_started [[StopTask ''s1'']]))) =
       [RunModule ''subdomain_enum'']
   \<and> \<not> e_stopped (eng (fst (snd (run_module env0 ''subdomain_enum'' 0 s1_started
       [[StopTask ''s1'']]))))
   \<and> observe (process_next env0 (add_task 90 ''s1'' task_t1 sys0) [[StopTask ''s1'']]) =
       Some (None, False, map RunModule MODULE_ORDER, Some ''completed'', Some None, True, True)
   \<and> fst (stop_scan ''s1'' (set_current ''s1'' (dequeue (add_task 90 ''s1'' task_t1 sys0)))) =
       Some (Exception ''TypeError'')
   \<and> db (snd (stop_scan ''s1'' (set_current ''s1'' (dequeue (add_task 90 ''s1'' task_t1 sys0))))) =
       db (add_task 90 ''s1'' task_t1 sys0)"
  by (simp add: scan_defs eval_defs stop_scan_def s1_started_def)


section \<open>Properties of the resilience monitor\<close>

lemmas queue_defs = pause_scan_def add_task_def pause_task_def resume_task_def set_task_status_def
  key_set_def key_del_def update_scan_status_def is_scan_started_def update_system_state_def
  commit_def stored_def set_network_status_def
  handle_network_state_def auto_pause_def auto_resume_def pause_one_def resume_one_def
  ResilienceManager_init_def

lemmas outage_defs = before_recovery_def outage_pause_def before_outage_def sys0_def task_t1_def
  blank_task_def row_pending_def

lemma update_system_state_scans: "scans (update_system_state d sid ns) = scans d"
  by (simp add: update_system_state_def commit_def split: list.splits option.splits)

lemma resume_one_paused:
  "paused_tasks (tq (resume_one now k s)) = removeAll k (paused_tasks (tq s))"
  by (simp add: resume_one_def resume_task_def set_task_status_def key_del_def)

lemma removeAll_as_filter: "removeAll k xs = filter (\<lambda>x. x \<noteq> k) xs"
  by (induction xs) auto

lemma fold_resume_paused:
  "paused_tasks (tq (fold (resume_one now) ks s)) = filter (\<lambda>x. x \<notin> set ks) (paused_tasks (tq s))"
proof (induction ks arbitrary: s)
  case Nil
  then show ?case by simp
next
  case (Cons k ks)
  show ?case
    by (simp add: Cons.IH resume_one_paused removeAll_as_filter conj_commute)
qed

lemma resume_one_keeps:
  "running_in k s \<Longrightarrow> running_in k (resume_one now a s)"
  by (auto simp: running_in_def resume_one_def resume_task_def set_task_status_def key_set_def)

lemma resume_one_sets:
  "k \<in> set (paused_tasks (tq s)) \<Longrightarrow> running_in k (resume_one now k s)"
  by (auto simp: running_in_def resume_one_def resume_task_def set_task_status_def key_set_def)

lemma resume_one_other:
  "k \<noteq> a \<Longrightarrow> k \<in> set (paused_tasks (tq s)) \<Longrightarrow> k \<in> set (paused_tasks (tq (resume_one now a s)))"
  by (simp add: resume_one_paused)

lemma fold_resume_keeps:
  "running_in k s \<Longrightarrow> running_in k (fold (resume_one now) ks s)"
  by (induction ks arbitrary: s) (simp_all add: resume_one_keeps)

lemma fold_resume_sets:
  "k \<in> set ks \<Longrightarrow> k \<in> set (paused_tasks (tq s)) \<or> running_in k s \<Longrightarrow>
   running_in k (fold (resume_one now) ks s)"
proof (induction ks arbitrary: s)
  case Nil
  then show ?case by simp
next
  case (Cons a ks)
  show ?case
  proof (cases "k = a")
    case True
    with Cons.prems have "running_in k (resume_one now a s)"
      using resume_one_sets resume_one_keeps by blast
    then show ?thesis by (simp add: fold_resume_keeps)
  next
    case False
    with Cons.prems have "k \<in> set ks" by simp
    moreover from False Cons.prems
    have "k \<in> set (paused_tasks (tq (resume_one now a s))) \<or> running_in k (resume_one now a s)"
      using resume_one_other resume_one_keeps by blast
    ultimately show ?thesis using Cons.IH by simp
  qed
qed

lemma resume_one_row_same:
  "k \<noteq> a \<Longrightarrow> scans (db (resume_one now a s)) k = scans (db s) k"
  by (simp add: resume_one_def update_scan_status_def commit_def Let_def split: option.splits)

lemma resume_one_row_running:
  "map_option status (scans (db (resume_one now k s)) k) = map_option (\<lambda>_. ''running'') (scans (db s) k)"
  by (simp add: resume_one_def update_scan_status_def commit_def Let_def split: option.splits)

lemma resume_one_row_running_keeps:
  "map_option status (scans (db s) k) = map_option (\<lambda>_. ''running'') (scans (db s) k) \<Longrightarrow>
   map_option status (scans (db (resume_one now a s)) k) = map_option (\<lambda>_. ''running'') (scans (db s) k)"
  by (cases "k = a") (simp_all add: resume_one_row_same resume_one_row_running)

lemma resume_one_row_dom:
  "(scans (db (resume_one now a s)) k = None) = (scans (db s) k = None)"
  by (simp add: resume_one_def update_scan_status_def commit_def Let_def split: option.splits)

lemma fold_resume_row_dom:
  "(scans (db (fold (resume_one now) ks s)) k = None) = (scans (db s) k = None)"
  by (induction ks arbitrary: s) (simp_all add: resume_one_row_dom)

lemma fold_resume_row_keeps:
  "map_option status (scans (db s) k) = map_option (\<lambda>_. ''running'') (scans (db s) k) \<Longrightarrow>
   map_option status (scans (db (fold (resume_one now) ks s)) k) = map_option (\<lambda>_. ''running'') (scans (db s) k)"
proof (induction ks arbitrary: s)
  case Nil
  then show ?case by simp
next
  case (Cons a ks)
  have step: "map_option status (scans (db (resume_one now a s)) k) =
              map_option (\<lambda>_. ''running'') (scans (db s) k)"
    using Cons.prems by (rule resume_one_row_running_keeps)
  have same: "map_option (\<lambda>_. ''running'') (scans (db (resume_one now a s)) k) =
              map_option (\<lambda>_. ''running'') (scans (db s) k)"
    using resume_one_row_dom [of now a s k] by (cases "scans (db s) k"; cases "scans (db (resume_one now a s)) k") simp_all
  from Cons.IH [of "resume_one now a s"] step same show ?case by simp
qed

lemma fold_resume_row_running:
  "k \<in> set ks \<Longrightarrow>
   map_option status (scans (db (fold (resume_one now) ks s)) k) = map_option (\<lambda>_. ''running'') (scans (db s) k)"
proof (induction ks arbitrary: s)
  case Nil
  then show ?case by simp
next
  case (Cons a ks)
  have same: "map_option (\<lambda>_. ''running'') (scans (db (resume_one now a s)) k) =
              map_option (\<lambda>_. ''running'') (scans (db s) k)"
    using resume_one_row_dom [of now a s k] by (cases "scans (db s) k"; cases "scans (db (resume_one now a s)) k") simp_all
  show ?case
  proof (cases "k = a")
    case True
    have "map_option status (scans (db (resume_one now a s)) k) =
          map_option (\<lambda>_. ''running'') (scans (db (resume_one now a s)) k)"
      using True same resume_one_row_running [of now k s] by simp
    from fold_resume_row_keeps [OF this, of now ks] same show ?thesis by simp
  next
    case False
    with Cons.prems have "k \<in> set ks" by simp
    from Cons.IH [OF this, of "resume_one now a s"] same show ?thesis by simp
  qed
qed

text \<open>
  C6, as the code has it. When the probe succeeds while an outage is on record and
  the outage pause is outstanding, the monitor sleeps for the resume delay (10 s by
  construction) and then resumes every scan that is in the queue's paused map at that
  moment, whatever put it there: the map ends empty, each of its scans is running and
  active again, and each of their rows that exists has status running.
\<close>

theorem outage_resume_resumes_all_paused:
  assumes "offline_since rm = Some t0" "was_paused_by_outage rm"
  shows "snd (handle_network_state now True (rm, s)) = [SleepMs (1000 * resume_delay rm)]
     \<and> paused_tasks (tq (snd (fst (handle_network_state now True (rm, s))))) = []
     \<and> (\<forall>scan_id \<in> set (paused_tasks (tq s)).
           task_status (tasks (tq (snd (fst (handle_network_state now True (rm, s))))) scan_id) = RUNNING
         \<and> scan_id \<in> set (active_tasks (tq (snd (fst (handle_network_state now True (rm, s))))))
         \<and> map_option status (scans (db (snd (fst (handle_network_state now True (rm, s))))) scan_id) =
             map_option (\<lambda>_. ''running'') (scans (db s) scan_id))
     \<and> \<not> was_paused_by_outage (fst (fst (handle_network_state now True (rm, s))))
     \<and> offline_since (fst (fst (handle_network_state now True (rm, s)))) = None"
proof -
  let ?s1 = "fold (resume_one now) (paused_tasks (tq s)) s"
  have r: "handle_network_state now True (rm, s) =
       ((rm\<lparr>offline_since := None, was_paused_by_outage := False\<rparr>,
         ?s1\<lparr>db := update_system_state (db ?s1) None (Some ''online'')\<rparr>),
        [SleepMs (1000 * resume_delay rm)])"
    using assms by (simp add: handle_network_state_def auto_resume_def Let_def)
  have p: "paused_tasks (tq ?s1) = []"
    by (simp add: fold_resume_paused)
  have q: "\<forall>k \<in> set (paused_tasks (tq s)). running_in k ?s1
        \<and> map_option status (scans (db ?s1) k) = map_option (\<lambda>_. ''running'') (scans (db s) k)"
    using fold_resume_sets fold_resume_row_running by blast
  from r p q show ?thesis
    by (simp add: running_in_def update_system_state_scans)
qed

lemma before_recovery_eval:
  "offline_since (fst before_recovery) = Some 100"
  "was_paused_by_outage (fst before_recovery)"
  "resume_delay (fst before_recovery) = 10"
  "paused_tasks (tq (snd before_recovery)) = [''u0'', ''s1'', ''u2'']"
  by (simp_all add: outage_defs queue_defs Let_def)

theorem outage_resume_resumes_all_paused_witness:
  "offline_since (fst before_recovery) = Some 100 \<and> was_paused_by_outage (fst before_recovery)
   \<and> snd (handle_network_state 140 True (fst before_recovery, snd before_recovery)) = [SleepMs 10000]
   \<and> paused_tasks (tq (snd (fst (handle_network_state 140 True (fst before_recovery, snd before_recovery))))) = []
   \<and> task_status (tasks (tq (snd (fst (handle_network_state 140 True
         (fst before_recovery, snd before_recovery))))) ''s1'') = RUNNING"
  using outage_resume_resumes_all_paused [OF before_recovery_eval(1) before_recovery_eval(2), of 140 "snd before_recovery"]
    before_recovery_eval
  by simp

text \<open>
  C6 as stated fails. Scan \<open>u0\<close> was paused by the user before the outage and \<open>u2\<close>
  was queued and paused by the user during it; \<open>u2\<close> was not among the scans the
  outage pause went over. The recovery step resumes both, with \<open>s1\<close>.
\<close>

theorem outage_resume_scope_counterexample:
  "active_tasks (tq (snd outage_pause)) = [''u0'', ''s1'']
   \<and> paused_tasks (tq (snd before_recovery)) = [''u0'', ''s1'', ''u2'']
   \<and> paused_tasks (tq (snd (fst (handle_network_state 140 True before_recovery)))) = []
   \<and> task_status (tasks (tq (snd (fst (handle_network_state 140 True before_recovery)))) ''u2'') = RUNNING
   \<and> task_status (tasks (tq (snd (fst (handle_network_state 140 True before_recovery)))) ''u0'') = RUNNING
   \<and> map_option status (scans (db (snd (fst (handle_network_state 140 True before_recovery)))) ''u2'') =
       Some ''running''
   \<and> snd (handle_network_state 140 True before_recovery) = [SleepMs 10000]"
  by (simp add: outage_defs queue_defs Let_def)


section \<open>Properties of the checkpoint store\<close>








text \<open>
  The stored checksum is always the digest of the results cache alone, whatever else
  the checkpoint holds.
\<close>

lemma checksum_covers_results_cache_only:
  "\<exists>items. build_checkpoint scan_id now cm done_ms pending_ms cache ms = JDict items
     \<and> dict_get items ''checksum'' = Some (JStr (generate_checksum (JDict cache)))"
  by (simp add: build_checkpoint_def dict_get_def)

lemmas dumps_defs = dumps_str_def escape_char_def sort_items_def hexdigit_def

lemma dumps_cache1: \<open>dumps (JDict cache1) = ''{"subdomain_enum": ["www.example.com"]}''\<close>
  by (simp add: cache1_def dumps_defs)

lemma checksum_cache1: "generate_checksum (JDict cache1) = ''eba25028f4f9e5f1''"
  unfolding generate_checksum_def dumps_cache1 by (simp add: sha_defs)

lemma dumps_payload1: \<open>dumps (JDict payload1) = ''{"completed_modules": ["subdomain_enum"], "current_module": "subdomain_enum", "module_state": {}, "pending_modules": ["dns_resolution", "http_probe", "port_scan", "wayback_urls", "js_analysis", "gf_patterns", "fuzzing", "nuclei_scan"], "results_cache": {"subdomain_enum": ["www.example.com"]}, "scan_id": "s1", "timestamp": "2024-01-01T00:00:00"}''\<close>
  by (simp add: payload1_def cache1_def MODULE_ORDER_def dumps_defs)

lemma checksum_payload1: "generate_checksum (JDict payload1) = ''889d40962924f5e7''"
  unfolding generate_checksum_def dumps_payload1 by (simp add: sha_defs)

lemma serialize_cache1: "serialize_results cache1 = cache1"
  by (simp add: serialize_results_def cache1_def)

lemma checkpoint1:
  "build_checkpoint ''s1'' ''2024-01-01T00:00:00'' ''subdomain_enum'' (take 1 MODULE_ORDER)
     (drop 1 MODULE_ORDER) cache1 None = JDict (payload1 @ [(''checksum'', JStr ''eba25028f4f9e5f1'')])"
  unfolding build_checkpoint_def payload1_def serialize_cache1 checksum_cache1 by simp

lemma payload1_without_checksum:
  "filter (\<lambda>kv. fst kv \<noteq> ''checksum'') (payload1 @ [(''checksum'', c)]) = payload1"
  "dict_get (payload1 @ [(''checksum'', c)]) ''checksum'' = Some c"
  by (simp_all add: payload1_def dict_get_def)

lemma verify1:
  "verify_checksum (JDict (payload1 @ [(''checksum'', JStr ''eba25028f4f9e5f1'')])) = Inr False"
  by (simp only: verify_checksum.simps payload1_without_checksum checksum_payload1 option.case) simp

lemma saved1_eq:
  "saved1 = (None, world0\<lparr>files := [''s1'' \<mapsto> JsonText (JDict (payload1 @ [(''checksum'', JStr ''eba25028f4f9e5f1'')]))],
       db := save_checkpoint (db world0) ''s1''
               (JDict (payload1 @ [(''checksum'', JStr ''eba25028f4f9e5f1'')]))\<rparr>)"
  unfolding saved1_def save_state_def checkpoint1
  by (simp add: write_state_file_def write_state_row_def uncaught_def no_faults_def world0_def)

text \<open>
  C1. The first checkpoint of scan \<open>s1\<close> is saved without any fault, into the file
  and into the row. Its checksum entry is the digest of the results cache,
  \<open>eba25028f4f9e5f1\<close>; the digest of the payload with the checksum entry removed is
  \<open>889d40962924f5e7\<close>. So the saved payload does not pass \<^verbatim>\<open>_verify_checksum\<close>, and
  \<^verbatim>\<open>load_state\<close> rejects the file, then the row, and returns \<^verbatim>\<open>None\<close>: saving and
  loading does not give the payload back.
\<close>

theorem save_then_load_rejects_checkpoint:
  "fst saved1 = None
   \<and> files (snd saved1) ''s1'' =
       Some (JsonText (JDict (payload1 @ [(''checksum'', JStr ''eba25028f4f9e5f1'')])))
   \<and> map_option checkpoint_data (scans (db (snd saved1)) ''s1'') =
       Some (Some (JDict (payload1 @ [(''checksum'', JStr ''eba25028f4f9e5f1'')])))
   \<and> generate_checksum (JDict payload1) = ''889d40962924f5e7''
   \<and> verify_checksum (JDict (payload1 @ [(''checksum'', JStr ''eba25028f4f9e5f1'')])) = Inr False
   \<and> load_state (snd saved1) ''s1'' = None"
  unfolding saved1_eq
  by (simp add: checksum_payload1 verify1 load_state_def load_from_def get_scan_def world0_def
      save_checkpoint_def execute_save_checkpoint_def commit_def stored_def
      del: verify_checksum.simps)


section \<open>Properties of resuming\<close>















end
